theory Spec2Isabelle
  imports Main "HOL-Library.Sublist" "HOL-Library.AList"
begin

section \<open>JavaScript strings\<close>

text \<open>
  A string is a list of code units. The model covers the code units below 256 (Latin-1),
  which is what an Isabelle \<open>char\<close> holds; the wizard's own literals are all ASCII.
\<close>

definition nl :: string where
  "nl = [CHR 0x0A]"

definition startsWith :: "string \<Rightarrow> string \<Rightarrow> bool" where
  \<comment> \<open>\<open>s.startsWith(t)\<close>\<close>
  "startsWith s t = prefix t s"

fun includesStr :: "string \<Rightarrow> string \<Rightarrow> bool" where
  \<comment> \<open>\<open>s.includes(t)\<close>: \<open>t\<close> occurs in \<open>s\<close> at some position\<close>
  "includesStr [] t = (t = [])"
| "includesStr (c # s) t = (prefix t (c # s) \<or> includesStr s t)"

definition isWhiteSpace :: "char \<Rightarrow> bool" where
  \<comment> \<open>the white space and line terminators that \<open>trim\<close> strips, below 256:
      TAB, LF, VT, FF, CR, SP, NBSP\<close>
  "isWhiteSpace c =
     (c \<in> set [CHR 0x09, CHR 0x0A, CHR 0x0B, CHR 0x0C, CHR 0x0D, CHR 0x20, CHR 0xA0])"

definition trim :: "string \<Rightarrow> string" where
  "trim s = rev (dropWhile isWhiteSpace (rev (dropWhile isWhiteSpace s)))"

definition upperCaseLetters :: string where
  \<comment> \<open>A-Z, and the Latin-1 capitals U+00C0..U+00DE without the multiplication sign U+00D7\<close>
  "upperCaseLetters =
     ''ABCDEFGHIJKLMNOPQRSTUVWXYZ'' @
       [
        CHR 0xC0, CHR 0xC1, CHR 0xC2, CHR 0xC3, CHR 0xC4, CHR 0xC5, CHR 0xC6, CHR 0xC7,
        CHR 0xC8, CHR 0xC9, CHR 0xCA, CHR 0xCB, CHR 0xCC, CHR 0xCD, CHR 0xCE, CHR 0xCF,
        CHR 0xD0, CHR 0xD1, CHR 0xD2, CHR 0xD3, CHR 0xD4, CHR 0xD5, CHR 0xD6, CHR 0xD8,
        CHR 0xD9, CHR 0xDA, CHR 0xDB, CHR 0xDC, CHR 0xDD, CHR 0xDE]"

definition lowerCaseLetters :: string where
  \<comment> \<open>their lower-case forms, position by position\<close>
  "lowerCaseLetters =
     ''abcdefghijklmnopqrstuvwxyz'' @
       [
        CHR 0xE0, CHR 0xE1, CHR 0xE2, CHR 0xE3, CHR 0xE4, CHR 0xE5, CHR 0xE6, CHR 0xE7,
        CHR 0xE8, CHR 0xE9, CHR 0xEA, CHR 0xEB, CHR 0xEC, CHR 0xED, CHR 0xEE, CHR 0xEF,
        CHR 0xF0, CHR 0xF1, CHR 0xF2, CHR 0xF3, CHR 0xF4, CHR 0xF5, CHR 0xF6, CHR 0xF8,
        CHR 0xF9, CHR 0xFA, CHR 0xFB, CHR 0xFC, CHR 0xFD, CHR 0xFE]"

definition lowerChar :: "char \<Rightarrow> char" where
  "lowerChar c =
     (case map_of (zip upperCaseLetters lowerCaseLetters) c of Some d \<Rightarrow> d | None \<Rightarrow> c)"

definition toLowerCase :: "string \<Rightarrow> string" where
  "toLowerCase s = map lowerChar s"

fun splitAcc :: "string \<Rightarrow> string \<Rightarrow> string list" where
  "splitAcc acc [] = [rev acc]"
| "splitAcc acc (c # cs) =
     (if c = CHR 0x0A then rev acc # splitAcc [] cs else splitAcc (c # acc) cs)"

definition splitLines :: "string \<Rightarrow> string list" where
  \<comment> \<open>\<open>s.split('\n')\<close>\<close>
  "splitLines s = splitAcc [] s"


section \<open>Token prompts\<close>

text \<open>
  \<open>checkForExitCommand\<close> either ends the process (\<open>abort('Wizard cancelled by user.', 0)\<close>)
  or returns \<open>undefined\<close>. A validator therefore has three results: the process exits,
  the value is rejected with a message, or the value is accepted (\<open>undefined\<close>).
\<close>

datatype validation = ProcessExit string nat | Rejected string | Accepted

definition checkForExitCommand :: "string \<Rightarrow> (string \<times> nat) option" where
  \<comment> \<open>\<open>Some (message, code)\<close>: the process exits; \<open>None\<close>: returns \<open>undefined\<close>\<close>
  "checkForExitCommand v =
     (if trim (toLowerCase v) = ''exit'' then Some (''Wizard cancelled by user.'', 0) else None)"

definition isHexChar :: "char \<Rightarrow> bool" where
  \<comment> \<open>the character class \<open>[a-fA-F0-9]\<close>\<close>
  "isHexChar c = (c \<in> set ''abcdefABCDEF0123456789'')"

definition isHexToken :: "string \<Rightarrow> bool" where
  \<comment> \<open>\<open>/^[a-fA-F0-9]{32,128}$/.test(value)\<close>; without the \<open>m\<close> flag the anchors
      match the two ends of the input only\<close>
  "isHexToken v = (32 \<le> length v \<and> length v \<le> 128 \<and> list_all isHexChar v)"

definition isPostToken :: "string \<Rightarrow> bool" where
  "isPostToken v = (startsWith v ''post_server_item_'' \<or> startsWith v ''post_client_item_'')"

definition invalidTokenMessage :: string where
  "invalidTokenMessage =
     ''Invalid token format. Expected: post_server_item_xxx, post_client_item_xxx, or hex token (32-128 characters)''"

definition validateToken :: "string \<Rightarrow> string \<Rightarrow> validation" where
  \<comment> \<open>the two token validators differ in the message for an empty value only\<close>
  "validateToken requiredMessage v =
     (case checkForExitCommand v of
        Some (m, code) \<Rightarrow> ProcessExit m code
      | None \<Rightarrow>
          if v = [] then Rejected requiredMessage
          else if \<not> isPostToken v \<and> \<not> isHexToken v then Rejected invalidTokenMessage
          else Accepted)"

definition validateServerToken :: "string \<Rightarrow> validation" where
  "validateServerToken = validateToken ''Server access token is required''"

definition validateClientToken :: "string \<Rightarrow> validation" where
  "validateClientToken = validateToken ''Client access token is required''"


section \<open>File system, console and control flow\<close>

text \<open>
  The project directory is a map from paths to nodes. A path is the list of its
  components below \<open>process.cwd()\<close>, so \<open>path.join(process.cwd(), 'src', 'app')\<close> is
  \<open>[''src'', ''app'']\<close>. Symbolic links are not modelled.
\<close>

datatype node = File string | Dir

type_synonym path = "string list"

type_synonym filesystem = "path \<Rightarrow> node option"

datatype error =
    ENOENT path | EISDIR path | ENOTDIR path | EEXIST path
  | CommandFailed string
  | JsError string

text \<open>
  The calls of \<open>clack.log\<close>, and \<open>clack.cancel\<close>, in the order they are made. What
  \<open>clack.intro\<close>, \<open>clack.outro\<close>, the spinner and \<open>console.log\<close> print is not recorded.
\<close>

datatype outcome =
    Success string | Info string | Warn string | Failure string | Step string
  | FailureMessage error
  | Cancel string

text \<open>
  A call returns a value, throws, or ends the process with an exit code. The files and the
  console keep what was done before a throw or an exit: nothing is rolled back.
\<close>

datatype 'a result = Returns 'a | Throws error | Exits nat

record wstate =
  files :: filesystem
  console :: "outcome list"

type_synonym 'a action = "wstate \<Rightarrow> 'a result \<times> wstate"

definition ret :: "'a \<Rightarrow> 'a action" where
  "ret x s = (Returns x, s)"

definition throwError :: "error \<Rightarrow> 'a action" where
  "throwError e s = (Throws e, s)"

definition andThen :: "'a action \<Rightarrow> ('a \<Rightarrow> 'b action) \<Rightarrow> 'b action" where
  "andThen m f s =
     (case m s of
        (Returns x, s') \<Rightarrow> f x s'
      | (Throws e, s') \<Rightarrow> (Throws e, s')
      | (Exits n, s') \<Rightarrow> (Exits n, s'))"

fun doAll :: "unit action list \<Rightarrow> unit action" where
  "doAll [] = ret ()"
| "doAll (m # ms) = andThen m (\<lambda>_. doAll ms)"

definition tryCatch :: "'a action \<Rightarrow> (error \<Rightarrow> 'a action) \<Rightarrow> 'a action" where
  \<comment> \<open>\<open>process.exit\<close> is not an exception: no \<open>catch\<close> block sees it\<close>
  "tryCatch m h s = (case m s of (Throws e, s') \<Rightarrow> h e s' | r \<Rightarrow> r)"

definition clackLog :: "outcome \<Rightarrow> unit action" where
  "clackLog out s = (Returns (), s\<lparr>console := console s @ [out]\<rparr>)"

definition abort :: "'a action" where
  \<comment> \<open>\<open>abort()\<close> with its default message and code\<close>
  "abort s = (Exits 1, s\<lparr>console := console s @ [Cancel ''Operation cancelled.'']\<rparr>)"

definition existsSync :: "filesystem \<Rightarrow> path \<Rightarrow> bool" where
  "existsSync fs p = (fs p \<noteq> None)"

definition isDirectory :: "filesystem \<Rightarrow> path \<Rightarrow> bool" where
  \<comment> \<open>\<open>fs.lstatSync(p).isDirectory()\<close>, called on existing paths only\<close>
  "isDirectory fs p = (fs p = Some Dir)"

definition isFile :: "filesystem \<Rightarrow> path \<Rightarrow> bool" where
  "isFile fs p = (case fs p of Some (File c) \<Rightarrow> True | _ \<Rightarrow> False)"

definition hasDirectoryPathFromRoot :: "filesystem \<Rightarrow> path \<Rightarrow> bool" where
  "hasDirectoryPathFromRoot fs dirs = (existsSync fs dirs \<and> isDirectory fs dirs)"

definition readFile :: "path \<Rightarrow> string action" where
  "readFile p s =
     (case files s p of
        Some (File c) \<Rightarrow> (Returns c, s)
      | Some Dir \<Rightarrow> (Throws (EISDIR p), s)
      | None \<Rightarrow> (Throws (ENOENT p), s))"

definition parentIsDirectory :: "filesystem \<Rightarrow> path \<Rightarrow> bool" where
  \<comment> \<open>the working directory itself is a directory\<close>
  "parentIsDirectory fs p = (butlast p = [] \<or> fs (butlast p) = Some Dir)"

definition writeFile :: "path \<Rightarrow> string \<Rightarrow> unit action" where
  \<comment> \<open>flag \<open>w\<close>: creates the file or replaces its content\<close>
  "writeFile p c s =
     (if files s p = Some Dir then (Throws (EISDIR p), s)
      else if \<not> parentIsDirectory (files s) p then
        (Throws (if isFile (files s) (butlast p) then ENOTDIR p else ENOENT p), s)
      else (Returns (), s\<lparr>files := (files s)(p \<mapsto> File c)\<rparr>))"

definition mkdirSync :: "path \<Rightarrow> unit action" where
  \<comment> \<open>\<open>fs.mkdirSync(p, { recursive: true })\<close>: makes the missing ancestors too, and
      accepts a directory that is already there\<close>
  "mkdirSync p s =
     (let ps = tl (prefixes p) in
      case find (isFile (files s)) ps of
        Some q \<Rightarrow> (Throws (if q = p then EEXIST p else ENOTDIR p), s)
      | None \<Rightarrow> (Returns (), s\<lparr>files := fold (\<lambda>q f. f(q \<mapsto> Dir)) ps (files s)\<rparr>))"

definition joinWith :: "string \<Rightarrow> string list \<Rightarrow> string" where
  \<comment> \<open>\<open>xs.join(sep)\<close>\<close>
  "joinWith sep xs = (case xs of [] \<Rightarrow> [] | x # ys \<Rightarrow> x @ concat (map (\<lambda>y. sep @ y) ys))"


section \<open>The manifest\<close>

text \<open>
  \<open>package.json\<close> as the code reads it: the \<open>type\<close> key, the three string records
  of the declared type \<open>PackageJson\<close>, and every other key, carried along as it is.
  A \<open>Record<string, string>\<close> keeps its keys in insertion order.
\<close>

type_synonym stringRecord = "(string \<times> string) list"

record packageJson =
  moduleType :: "string option"
  dependencies :: "stringRecord option"
  devDependencies :: "stringRecord option"
  scripts :: "stringRecord option"
  otherKeys :: "(string \<times> string) list"

record tsconfig =
  exclude :: "string list option"
  otherOptions :: "(string \<times> string) list"

definition getProp :: "stringRecord option \<Rightarrow> string \<Rightarrow> string option" where
  \<comment> \<open>\<open>obj?.[key]\<close>\<close>
  "getProp obj k = (case obj of None \<Rightarrow> None | Some al \<Rightarrow> map_of al k)"

definition truthy :: "string option \<Rightarrow> bool" where
  \<comment> \<open>\<open>undefined\<close> and the empty string are falsy\<close>
  "truthy v = (case v of None \<Rightarrow> False | Some s \<Rightarrow> s \<noteq> [])"

datatype packageManager = Npm | Yarn | Pnpm

datatype answer = Yes | No | Cancelled

datatype routerType = AppRouter | PagesRouter | BothRouters

datatype hookLocation = Root | Src

record projectInfo =
  hasTypescript :: bool
  hasAppRouter :: bool
  hasPagesRouter :: bool
  packageManager :: packageManager
  nextVersion :: string

record config =
  accessToken :: string
  clientAccessToken :: string
  serverAccessToken :: string
  environment :: string
  enableDeployment :: bool
  codeVersion :: "string option"
  enableSourcemaps :: bool
  enableReplay :: bool
  routerType :: routerType
  createExamplePage :: bool
  isVercel :: bool
  vercelClientTokenEnvVar :: "string option"
  vercelServerTokenEnvVar :: "string option"

record wizardOptions =
  optAccessToken :: "string option"
  optEnvironment :: "string option"
  skipInstall :: bool
  yes :: bool

text \<open>
  What the wizard calls and does not define, and the texts it renders, are parameters of
  the model: the subprocess runner (which may change the project directory, and says
  whether the command exited with zero), the JSON reader and printer, the environment
  of the process, the interview (its result and what it logs), the answer of the user
  at the instrumentation prompt, and the templates whose text no property below
  depends on.
\<close>

record collaborators =
  execCommand :: "string \<Rightarrow> filesystem \<Rightarrow> bool \<times> filesystem"
  parseJson :: "string \<Rightarrow> packageJson option"
  stringifyJson :: "packageJson \<Rightarrow> string"
  parseTsconfig :: "string \<Rightarrow> tsconfig option"
  stringifyTsconfig :: "tsconfig \<Rightarrow> string"
  processEnv :: "string \<Rightarrow> string option"
  gatherConfiguration :: "wizardOptions \<Rightarrow> projectInfo \<Rightarrow> config result \<times> outcome list"
  confirmInstrumentation :: answer
  getRollbarServerConfigContents :: "string \<Rightarrow> string option \<Rightarrow> bool \<Rightarrow> string option \<Rightarrow> string"
  getRollbarEdgeConfigContents :: "string \<Rightarrow> string option \<Rightarrow> bool \<Rightarrow> string option \<Rightarrow> string"
  getRollbarClientConfigContents ::
    "string \<Rightarrow> string option \<Rightarrow> bool \<Rightarrow> bool \<Rightarrow> bool \<Rightarrow> string option \<Rightarrow> string"
  getInstrumentationHookContent :: "hookLocation \<Rightarrow> string"
  getRollbarDefaultUnderscoreErrorPage :: "path \<Rightarrow> string"
  getRollbarDefaultGlobalErrorPage :: "bool \<Rightarrow> path \<Rightarrow> string"
  getSourceMapUploadScriptTemplate :: "bool \<Rightarrow> bool \<Rightarrow> string option \<Rightarrow> string"
  getRootLayoutContent :: "bool \<Rightarrow> string"
  getRollbarExamplePageContents :: "string \<Rightarrow> bool \<Rightarrow> bool \<Rightarrow> path \<Rightarrow> string"
  getRollbarExampleAppDirApiRoute :: "bool \<Rightarrow> path \<Rightarrow> string"
  getRollbarExamplePagesDirApiRoute :: "bool \<Rightarrow> path \<Rightarrow> string"

definition execSync :: "collaborators \<Rightarrow> string \<Rightarrow> unit action" where
  \<comment> \<open>throws when the command exits with a code other than zero\<close>
  "execSync X command s =
     (case execCommand X command (files s) of
        (ok, fs') \<Rightarrow> (if ok then Returns () else Throws (CommandFailed command), s\<lparr>files := fs'\<rparr>))"

definition getPackageJson :: "collaborators \<Rightarrow> filesystem \<Rightarrow> packageJson option" where
  \<comment> \<open>\<open>null\<close> when the file cannot be read or parsed: the \<open>catch\<close> returns it\<close>
  "getPackageJson X fs =
     (case fs [''package.json''] of Some (File c) \<Rightarrow> parseJson X c | _ \<Rightarrow> None)"

definition detectPackageManager :: "filesystem \<Rightarrow> packageManager" where
  "detectPackageManager fs =
     (if existsSync fs [''pnpm-lock.yaml''] then Pnpm
      else if existsSync fs [''yarn.lock''] then Yarn
      else Npm)"

definition checkHasTypescript :: "filesystem \<Rightarrow> bool" where
  "checkHasTypescript fs = existsSync fs [''tsconfig.json'']"

definition getMaybeAppDirLocation :: "filesystem \<Rightarrow> path option" where
  "getMaybeAppDirLocation fs =
     (if existsSync fs [''app''] \<and> isDirectory fs [''app''] then Some [''app'']
      else if existsSync fs [''src'', ''app''] \<and> isDirectory fs [''src'', ''app'']
        then Some [''src'', ''app'']
      else None)"

definition hasRootLayoutFile :: "filesystem \<Rightarrow> path \<Rightarrow> bool" where
  "hasRootLayoutFile fs appFolderPath =
     list_ex (\<lambda>ext. existsSync fs (appFolderPath @ [''layout.'' @ ext])) [''jsx'', ''tsx'', ''js'']"

definition withFiles :: "(filesystem \<Rightarrow> 'a action) \<Rightarrow> 'a action" where
  \<comment> \<open>a probe of the project directory as it is at this point of the run\<close>
  "withFiles f s = f (files s) s"

definition orDefault :: "string option \<Rightarrow> string \<Rightarrow> string" where
  \<comment> \<open>\<open>v || d\<close>\<close>
  "orDefault v d = (case v of None \<Rightarrow> d | Some x \<Rightarrow> if x = [] then d else x)"

definition basename :: "path \<Rightarrow> string" where
  "basename p = (if p = [] then [] else last p)"

definition displayPath :: "path \<Rightarrow> string" where
  \<comment> \<open>\<open>path.join\<close> of the components, as printed\<close>
  "displayPath p = joinWith ''/'' p"


section \<open>Package installation and project inspection\<close>

definition installCommandFor :: "packageManager \<Rightarrow> string \<Rightarrow> string" where
  "installCommandFor pm packageName =
     (case pm of
        Npm \<Rightarrow> ''npm install '' @ packageName
      | Yarn \<Rightarrow> ''yarn add '' @ packageName
      | Pnpm \<Rightarrow> ''pnpm add '' @ packageName)"

definition installPackage :: "collaborators \<Rightarrow> string \<Rightarrow> packageManager \<Rightarrow> bool \<Rightarrow> unit action" where
  "installPackage X packageName pm skip =
     (if skip then clackLog (Info (''Skipping installation of '' @ packageName))
      else
        andThen (clackLog (Info (''Installing '' @ packageName @ ''...''))) (\<lambda>_.
        tryCatch
          (andThen (execSync X (installCommandFor pm packageName)) (\<lambda>_.
           clackLog (Success (''Installed '' @ packageName))))
          (\<lambda>e.
            andThen
              (clackLog
                (Failure (''Failed to install '' @ packageName @ ''. Please install it manually.'')))
              (\<lambda>_. throwError e))))"

definition detectProjectStructure :: "collaborators \<Rightarrow> projectInfo action" where
  "detectProjectStructure X =
     withFiles (\<lambda>fs.
       case getPackageJson X fs of
         None \<Rightarrow> throwError (JsError ''Could not find package.json'')
       | Some pj \<Rightarrow>
           ret \<lparr> hasTypescript = checkHasTypescript fs,
                 hasAppRouter =
                   (hasDirectoryPathFromRoot fs [''app''] \<or>
                    hasDirectoryPathFromRoot fs [''src'', ''app'']),
                 hasPagesRouter =
                   (hasDirectoryPathFromRoot fs [''pages''] \<or>
                    hasDirectoryPathFromRoot fs [''src'', ''pages'']),
                 packageManager = detectPackageManager fs,
                 nextVersion =
                   (if truthy (getProp (dependencies pj) ''next'')
                      then orDefault (getProp (dependencies pj) ''next'') []
                    else orDefault (getProp (devDependencies pj) ''next'') ''unknown'') \<rparr>)"


section \<open>Generated configuration files\<close>

definition extOf :: "projectInfo \<Rightarrow> string" where
  "extOf info = (if hasTypescript info then ''ts'' else ''js'')"

definition createConfigFiles :: "collaborators \<Rightarrow> config \<Rightarrow> projectInfo \<Rightarrow> unit action" where
  "createConfigFiles X cfg info =
     (let ext = extOf info in
      doAll
       [writeFile [''rollbar.server.config.'' @ ext]
          (getRollbarServerConfigContents X (environment cfg) (codeVersion cfg) (isVercel cfg)
             (vercelServerTokenEnvVar cfg)),
        clackLog (Success (''Created rollbar.server.config.'' @ ext)),
        writeFile [''rollbar.edge.config.'' @ ext]
          (getRollbarEdgeConfigContents X (environment cfg) (codeVersion cfg) (isVercel cfg)
             (vercelServerTokenEnvVar cfg)),
        clackLog (Success (''Created rollbar.edge.config.'' @ ext)),
        writeFile [''rollbar.client.config.'' @ ext]
          (getRollbarClientConfigContents X (environment cfg) (codeVersion cfg) (enableReplay cfg)
             (enableSourcemaps cfg) (isVercel cfg) (vercelClientTokenEnvVar cfg)),
        clackLog (Success (''Created rollbar.client.config.'' @ ext))])"


section \<open>The build configuration\<close>

definition sourceMapsConfig :: "bool \<Rightarrow> string" where
  "sourceMapsConfig enable =
     (if enable then
        nl @ ''  // Enable source map generation for production builds'' @
        nl @ ''  // Source maps will be uploaded to Rollbar automatically after build'' @
        nl @ ''  productionBrowserSourceMaps: true,'' @
        nl @ ''  // Next.js 16+ uses Turbopack by default - add empty config to avoid webpack conflicts'' @
        nl @ ''  turbopack: {},''
      else [])"

definition getNextjsConfigCjsTemplate :: "bool \<Rightarrow> string" where
  "getNextjsConfigCjsTemplate enable =
     ''/** @type {import('next').NextConfig} */'' @ nl @
     ''const nextConfig = {'' @ sourceMapsConfig enable @ nl @
     ''};'' @ nl @
     nl @
     ''module.exports = nextConfig;'' @ nl"

definition getNextjsConfigTsTemplate :: "bool \<Rightarrow> string" where
  "getNextjsConfigTsTemplate enable =
     ''import type { NextConfig } from '' @ [CHR 0x22] @ ''next'' @ [CHR 0x22] @ '';'' @ nl @
     nl @
     ''const nextConfig: NextConfig = {'' @ sourceMapsConfig enable @ nl @
     ''};'' @ nl @
     nl @
     ''export default nextConfig;'' @ nl"

definition getNextjsConfigMjsTemplate :: "bool \<Rightarrow> string" where
  "getNextjsConfigMjsTemplate enable =
     ''/** @type {import('next').NextConfig} */'' @ nl @
     ''const nextConfig = {'' @ sourceMapsConfig enable @ nl @
     ''};'' @ nl @
     nl @
     ''export default nextConfig;'' @ nl"

definition meaningfulLine :: "string \<Rightarrow> bool" where
  \<comment> \<open>the filter of \<open>isEmptyConfig\<close>\<close>
  "meaningfulLine line =
     (\<not> startsWith (trim line) ''//'' \<and> trim line \<noteq> [] \<and>
      \<not> startsWith (trim line) ''import'' \<and> \<not> startsWith (trim line) ''export'' \<and>
      \<not> startsWith (trim line) ''const'' \<and> \<not> startsWith (trim line) ''module.exports'' \<and>
      \<not> includesStr line ''NextConfig'')"

definition meaningfulLines :: "string \<Rightarrow> string list" where
  "meaningfulLines content = filter meaningfulLine (splitLines (trim content))"

definition isEmptyConfig :: "string \<Rightarrow> bool" where
  "isEmptyConfig content =
     (includesStr content ''/* config options here */'' \<or> length (meaningfulLines content) \<le> 2)"

definition setupNextjsConfig :: "collaborators \<Rightarrow> config \<Rightarrow> projectInfo \<Rightarrow> unit action" where
  "setupNextjsConfig X cfg info =
     withFiles (\<lambda>fs.
       let nextConfigJsPath = [''next.config.js''];
           nextConfigMjsPath = [''next.config.mjs''];
           nextConfigTsPath = [''next.config.ts''];
           hasNextConfigJs = existsSync fs nextConfigJsPath;
           hasNextConfigMjs = existsSync fs nextConfigMjsPath;
           hasNextConfigTs = existsSync fs nextConfigTsPath
       in
       if enableSourcemaps cfg then
         if hasNextConfigJs \<or> hasNextConfigMjs \<or> hasNextConfigTs then
           (let configPath =
                  (if hasNextConfigJs then nextConfigJsPath
                   else if hasNextConfigMjs then nextConfigMjsPath
                   else nextConfigTsPath)
            in
            andThen (readFile configPath) (\<lambda>configContent.
              let hasProductionBrowserSourceMaps =
                    includesStr configContent ''productionBrowserSourceMaps''
              in
              if isEmptyConfig configContent \<or> \<not> hasProductionBrowserSourceMaps then
                (let newConfigContent =
                       (if hasNextConfigTs then getNextjsConfigTsTemplate (enableSourcemaps cfg)
                        else if hasNextConfigMjs then getNextjsConfigMjsTemplate (enableSourcemaps cfg)
                        else getNextjsConfigCjsTemplate (enableSourcemaps cfg))
                 in
                 doAll
                  [writeFile configPath newConfigContent,
                   clackLog
                     (Success (''Updated '' @ basename configPath @ '' with Rollbar configuration''))])
              else if \<not> hasProductionBrowserSourceMaps then
                clackLog
                  (Warn (''Please add productionBrowserSourceMaps: true to your Next.js config file ('' @
                         basename configPath @ '') to enable source map generation.''))
              else
                clackLog (Info (''Found source map configuration in '' @ basename configPath))))
         else
           (let isEsm =
                  (case getPackageJson X fs of
                     None \<Rightarrow> False
                   | Some pj \<Rightarrow> moduleType pj = Some ''module'')
            in
            if hasTypescript info \<and> existsSync fs nextConfigTsPath then
              doAll
               [writeFile nextConfigTsPath (getNextjsConfigTsTemplate (enableSourcemaps cfg)),
                clackLog (Success ''Created next.config.ts with Rollbar configuration'')]
            else if isEsm \<or> hasTypescript info then
              doAll
               [writeFile nextConfigMjsPath (getNextjsConfigMjsTemplate (enableSourcemaps cfg)),
                clackLog (Success ''Created next.config.mjs with Rollbar configuration'')]
            else
              doAll
               [writeFile nextConfigJsPath (getNextjsConfigCjsTemplate (enableSourcemaps cfg)),
                clackLog (Success ''Created next.config.js with Rollbar configuration'')])
       else ret ())"


section \<open>The source-map upload script\<close>

definition isMissing :: "packageJson option \<Rightarrow> string \<Rightarrow> bool" where
  \<comment> \<open>the package is in neither dependency record (of no manifest, every package is missing)\<close>
  "isMissing pj pkg =
     (case pj of
        None \<Rightarrow> True
      | Some j \<Rightarrow>
          \<not> truthy (getProp (dependencies j) pkg) \<and> \<not> truthy (getProp (devDependencies j) pkg))"

definition packageVersions :: stringRecord where
  "packageVersions =
     [(''form-data'', ''^4.0.0''), (''node-fetch'', ''^3.3.2''), (''glob'', ''^13.0.0''),
      (''tsx'', ''^4.20.6''), (''@types/glob'', ''^8.0.0'')]"

definition devInstallCommand :: "packageManager \<Rightarrow> string list \<Rightarrow> string" where
  "devInstallCommand pm pkgs =
     (if pm = Yarn then ''yarn add -D '' @ joinWith '' '' pkgs
      else if pm = Pnpm then ''pnpm add -D '' @ joinWith '' '' pkgs
      else ''npm install --save-dev '' @ joinWith '' '' pkgs)"

definition syncCommand :: "packageManager \<Rightarrow> string" where
  "syncCommand pm =
     (if pm = Yarn then ''yarn install --frozen-lockfile=false''
      else if pm = Pnpm then ''pnpm install --no-frozen-lockfile''
      else ''npm install'')"

definition installMissingPackages :: "collaborators \<Rightarrow> string list \<Rightarrow> unit action" where
  \<comment> \<open>the body of \<open>if (missingPackages.length > 0)\<close>\<close>
  "installMissingPackages X missingPackages =
     andThen (clackLog (Info (''Installing required packages: '' @ joinWith '', '' missingPackages)))
       (\<lambda>_.
     withFiles (\<lambda>fs0.
       let installCommand = devInstallCommand (detectPackageManager fs0) missingPackages in
       tryCatch
         (doAll
           [execSync X installCommand,
            clackLog (Success ''Installed required packages''),
            withFiles (\<lambda>fs.
              case getPackageJson X fs of
                None \<Rightarrow> ret ()
              | Some updated \<Rightarrow>
                  (let stillMissing = filter (isMissing (Some updated)) missingPackages in
                   if stillMissing \<noteq> [] then
                     doAll
                      [clackLog
                         (Warn (''Warning: Packages may not have been added to package.json: '' @
                                joinWith '', '' stillMissing)),
                       clackLog (Warn ''Please verify your package.json and lockfile are in sync.'')]
                   else ret ())),
            clackLog (Info ''Syncing lockfile with package.json...''),
            withFiles (\<lambda>fs.
              tryCatch
                (doAll
                  [execSync X (syncCommand (detectPackageManager fs)),
                   clackLog (Success ''Lockfile synchronized'')])
                (\<lambda>syncError.
                  clackLog
                    (Warn ''Note: Make sure to commit both package.json and your lockfile after running the wizard.'')))])
         (\<lambda>e.
           doAll
            [clackLog (Warn ''Failed to install packages automatically. Please install manually:''),
             clackLog (Warn (''  '' @ installCommand))])))"

definition addMissingDevDependencies :: "string list \<Rightarrow> packageJson \<Rightarrow> packageJson" where
  \<comment> \<open>the \<open>for\<close> loop over \<open>missingPackages\<close>, after \<open>devDependencies\<close> is made an object\<close>
  "addMissingDevDependencies missingPackages pj =
     pj\<lparr>devDependencies :=
          Some (fold
            (\<lambda>pkg dev.
               if \<not> truthy (map_of dev pkg)
               then AList.update pkg (orDefault (map_of packageVersions pkg) ''latest'') dev
               else dev)
            missingPackages
            (case devDependencies pj of None \<Rightarrow> [] | Some dev \<Rightarrow> dev))\<rparr>"

definition writePackageJson :: "collaborators \<Rightarrow> packageJson \<Rightarrow> unit action" where
  \<comment> \<open>\<open>JSON.stringify(pj, null, 2) + '\n'\<close> written to \<open>package.json\<close>\<close>
  "writePackageJson X pj = writeFile [''package.json''] (stringifyJson X pj @ nl)"

definition uploadCommand :: "projectInfo \<Rightarrow> string" where
  \<comment> \<open>\<open>${runner} scripts/upload-sourcemaps.${scriptExt}\<close>\<close>
  "uploadCommand info =
     (if hasTypescript info then ''tsx'' else ''node'') @ '' scripts/upload-sourcemaps.'' @ extOf info"

definition postbuildOf :: "packageJson \<Rightarrow> string option" where
  \<comment> \<open>\<open>(pj.scripts || {}).postbuild\<close>\<close>
  "postbuildOf pj = getProp (scripts pj) ''postbuild''"

definition setPostbuild :: "string \<Rightarrow> packageJson \<Rightarrow> packageJson" where
  \<comment> \<open>\<open>scripts.postbuild = v; pj.scripts = scripts\<close>\<close>
  "setPostbuild v pj =
     pj\<lparr>scripts :=
          Some (AList.update ''postbuild'' v (case scripts pj of None \<Rightarrow> [] | Some sc \<Rightarrow> sc))\<rparr>"

definition addPostbuildScript :: "collaborators \<Rightarrow> projectInfo \<Rightarrow> unit action" where
  \<comment> \<open>the block \<open>Add postbuild script to package.json\<close>\<close>
  "addPostbuildScript X info =
     withFiles (\<lambda>fs.
       case getPackageJson X fs of
         None \<Rightarrow> ret ()
       | Some finalPackageJson \<Rightarrow>
           if \<not> truthy (postbuildOf finalPackageJson) then
             doAll
              [writePackageJson X (setPostbuild (uploadCommand info) finalPackageJson),
               clackLog (Success ''Added postbuild script to package.json'')]
           else if \<not> includesStr (orDefault (postbuildOf finalPackageJson) []) ''upload-sourcemaps'' then
             doAll
              [writePackageJson X
                 (setPostbuild
                    (orDefault (postbuildOf finalPackageJson) [] @ '' && '' @ uploadCommand info)
                    finalPackageJson),
               clackLog (Success ''Updated postbuild script in package.json'')]
           else clackLog (Info ''postbuild script already includes source map upload''))"

definition excludeScriptsFromTypeChecking :: "collaborators \<Rightarrow> projectInfo \<Rightarrow> unit action" where
  "excludeScriptsFromTypeChecking X info =
     (if \<not> hasTypescript info then ret ()
      else
        withFiles (\<lambda>fs.
          if \<not> existsSync fs [''tsconfig.json''] then ret ()
          else
            tryCatch
              (andThen (readFile [''tsconfig.json'']) (\<lambda>tsconfigContent.
                 case parseTsconfig X tsconfigContent of
                   None \<Rightarrow> throwError (JsError ''tsconfig.json cannot be patched'')
                 | Some tsc \<Rightarrow>
                     (let ex = (case exclude tsc of None \<Rightarrow> [] | Some xs \<Rightarrow> xs) in
                      if ''scripts'' \<notin> set ex then
                        doAll
                         [writeFile [''tsconfig.json'']
                            (stringifyTsconfig X (tsc\<lparr>exclude := Some (ex @ [''scripts''])\<rparr>) @ nl),
                          clackLog (Success ''Updated tsconfig.json to exclude scripts directory'')]
                      else ret ())))
              (\<lambda>e. clackLog (Warn ''Could not update tsconfig.json to exclude scripts directory''))))"

definition setupSourceMapUploadScript ::
    "collaborators \<Rightarrow> config \<Rightarrow> projectInfo \<Rightarrow> unit action" where
  "setupSourceMapUploadScript X cfg info =
     (let scriptExt = extOf info;
          requiredPackages =
            [''form-data'', ''node-fetch'', ''glob''] @
            (if hasTypescript info then [''tsx'', ''@types/glob''] else [])
      in
      andThen
        (doAll
          [withFiles (\<lambda>fs. if \<not> existsSync fs [''scripts''] then mkdirSync [''scripts''] else ret ()),
           writeFile [''scripts'', ''upload-sourcemaps.'' @ scriptExt]
             (getSourceMapUploadScriptTemplate X (hasTypescript info) (isVercel cfg)
                (vercelServerTokenEnvVar cfg)),
           clackLog (Success (''Created scripts/upload-sourcemaps.'' @ scriptExt))])
        (\<lambda>_.
      withFiles (\<lambda>fs.
        let missingPackages = filter (isMissing (getPackageJson X fs)) requiredPackages in
        doAll
         [if missingPackages \<noteq> [] then installMissingPackages X missingPackages else ret (),
          withFiles (\<lambda>fs1.
            case getPackageJson X fs1 of
              None \<Rightarrow> ret ()
            | Some updatedPackageJson \<Rightarrow>
                if missingPackages \<noteq> [] then
                  doAll
                   [writePackageJson X (addMissingDevDependencies missingPackages updatedPackageJson),
                    clackLog (Info ''Updated package.json with required dependencies'')]
                else ret ()),
          addPostbuildScript X info,
          excludeScriptsFromTypeChecking X info])))"


section \<open>The instrumentation hook\<close>

text \<open>
  At the prompt, \<open>abortIfCancelled\<close> is given the promise of \<open>clack.confirm\<close> before it is
  awaited, so it never sees a cancellation; the awaited cancel symbol is truthy and passes
  \<open>!shouldContinue\<close>. Only the answer \<open>No\<close> aborts.
\<close>

definition setupInstrumentationHook :: "collaborators \<Rightarrow> projectInfo \<Rightarrow> unit action" where
  "setupInstrumentationHook X info =
     withFiles (\<lambda>fs.
       let hasRootAppDirectory = hasDirectoryPathFromRoot fs [''app''];
           hasRootPagesDirectory = hasDirectoryPathFromRoot fs [''pages''];
           hasSrcDirectory = hasDirectoryPathFromRoot fs [''src''];
           instrumentationTsExists = existsSync fs [''instrumentation.ts''];
           instrumentationJsExists = existsSync fs [''instrumentation.js''];
           srcInstrumentationTsExists = existsSync fs [''src'', ''instrumentation.ts''];
           srcInstrumentationJsExists = existsSync fs [''src'', ''instrumentation.js''];
           instrumentationHookLocation =
             (if hasRootPagesDirectory \<or> hasRootAppDirectory then
                (if instrumentationJsExists \<or> instrumentationTsExists then Some Root else None)
              else
                (if srcInstrumentationTsExists \<or> srcInstrumentationJsExists then Some Src else None));
           newInstrumentationFileName = ''instrumentation.'' @ extOf info
       in
       case instrumentationHookLocation of
         None \<Rightarrow>
           (let newInstrumentationHookLocation =
                  (if hasRootPagesDirectory \<or> hasRootAppDirectory then Root
                   else if hasSrcDirectory then Src
                   else Root);
                newInstrumentationHookPath =
                  (if newInstrumentationHookLocation = Root then [newInstrumentationFileName]
                   else [''src'', newInstrumentationFileName])
            in
            doAll
             [writeFile newInstrumentationHookPath
                (getInstrumentationHookContent X newInstrumentationHookLocation),
              clackLog (Success (''Created '' @ newInstrumentationFileName))])
       | Some location \<Rightarrow>
           andThen
             (clackLog (Info ''Found existing instrumentation file. Please add the following code:''))
             (\<lambda>_.
               case confirmInstrumentation X of
                 Yes \<Rightarrow> ret ()
               | No \<Rightarrow> abort
               | Cancelled \<Rightarrow> ret ()))"


section \<open>Error pages\<close>

definition firstExisting :: "filesystem \<Rightarrow> path \<Rightarrow> string list \<Rightarrow> string option" where
  \<comment> \<open>the chain of conditionals over the file names, in its order\<close>
  "firstExisting fs dir names = find (\<lambda>n. existsSync fs (dir @ [n])) names"

definition getMaybePagesDirLocation :: "filesystem \<Rightarrow> path option" where
  \<comment> \<open>\<open>pagesLocation\<close> of \<open>setupErrorPages\<close>\<close>
  "getMaybePagesDirLocation fs =
     (if existsSync fs [''pages''] \<and> isDirectory fs [''pages''] then Some [''pages'']
      else if existsSync fs [''src'', ''pages''] \<and> isDirectory fs [''src'', ''pages'']
        then Some [''src'', ''pages'']
      else None)"

definition underscoreErrorVariants :: "string list" where
  "underscoreErrorVariants = [''_error.tsx'', ''_error.ts'', ''_error.jsx'', ''_error.js'']"

definition globalErrorVariants :: "string list" where
  "globalErrorVariants =
     [''global-error.tsx'', ''global-error.ts'', ''global-error.jsx'', ''global-error.js'']"

definition setupPagesErrorPage :: "collaborators \<Rightarrow> projectInfo \<Rightarrow> unit action" where
  \<comment> \<open>the block for the Pages Router\<close>
  "setupPagesErrorPage X info =
     withFiles (\<lambda>fs.
       case getMaybePagesDirLocation fs of
         None \<Rightarrow> ret ()
       | Some pagesLocation \<Rightarrow>
           (case firstExisting fs pagesLocation underscoreErrorVariants of
              Some underscoreErrorPageFile \<Rightarrow> ret ()
            | None \<Rightarrow>
                (let underscoreErrorFileName =
                       ''_error.'' @ (if hasTypescript info then ''tsx'' else ''jsx'')
                 in
                 doAll
                  [writeFile (pagesLocation @ [underscoreErrorFileName])
                     (getRollbarDefaultUnderscoreErrorPage X pagesLocation),
                   clackLog
                     (Success
                        (''Created '' @ displayPath (pagesLocation @ [underscoreErrorFileName]) @
                         ''.''))])))"

definition setupAppErrorPage :: "collaborators \<Rightarrow> projectInfo \<Rightarrow> unit action" where
  \<comment> \<open>the block for the App Router\<close>
  "setupAppErrorPage X info =
     withFiles (\<lambda>fs.
       case getMaybeAppDirLocation fs of
         None \<Rightarrow> ret ()
       | Some appDirLocation \<Rightarrow>
           (case firstExisting fs appDirLocation globalErrorVariants of
              Some globalErrorPageFile \<Rightarrow> ret ()
            | None \<Rightarrow>
                (let newGlobalErrorFileName =
                       ''global-error.'' @ (if hasTypescript info then ''tsx'' else ''jsx'')
                 in
                 doAll
                  [writeFile (appDirLocation @ [newGlobalErrorFileName])
                     (getRollbarDefaultGlobalErrorPage X (hasTypescript info) appDirLocation),
                   clackLog
                     (Success
                        (''Created '' @ displayPath (appDirLocation @ [newGlobalErrorFileName]) @
                         ''.''))])))"

definition setupErrorPages :: "collaborators \<Rightarrow> projectInfo \<Rightarrow> routerType \<Rightarrow> unit action" where
  "setupErrorPages X info rt =
     doAll
      [if rt = PagesRouter \<or> rt = BothRouters then setupPagesErrorPage X info else ret (),
       if rt = AppRouter \<or> rt = BothRouters then setupAppErrorPage X info else ret ()]"


section \<open>The environment file and the ignore file\<close>

definition envLocal :: path where
  "envLocal = [''.env.local'']"

definition gitignore :: path where
  "gitignore = [''.gitignore'']"

definition serverTokenKey :: string where
  "serverTokenKey = ''ROLLBAR_PROJECT_ACCESS_SERVER_TOKEN''"

definition vercelBlock :: "config \<Rightarrow> string" where
  "vercelBlock cfg =
     nl @ ''# Rollbar Configuration (Vercel)'' @
     nl @ ''# These environment variables are set by Vercel's Rollbar integration'' @
     nl @ ''# Client Token: '' @ orDefault (vercelClientTokenEnvVar cfg) ''VERCEL_ROLLBAR_CLIENT_TOKEN'' @
     nl @ ''# Server Token: '' @ orDefault (vercelServerTokenEnvVar cfg) ''VERCEL_ROLLBAR_SERVER_TOKEN'' @
     nl"

definition tokenBlock :: "config \<Rightarrow> string" where
  "tokenBlock cfg =
     nl @ ''# Rollbar Configuration'' @
     nl @ serverTokenKey @ ''='' @ serverAccessToken cfg @
     nl @ ''NEXT_PUBLIC_ROLLBAR_PROJECT_ACCESS_CLIENT_TOKEN='' @ clientAccessToken cfg @
     nl"

definition codeVersionHint :: string where
  "codeVersionHint =
     ''# Set ROLLBAR_CODE_VERSION to track deployments (e.g., git commit SHA, semver, build number)'' @
     nl @ ''# ROLLBAR_CODE_VERSION=your-version-here'' @ nl"

definition withTokens :: "config \<Rightarrow> string \<Rightarrow> string" where
  \<comment> \<open>the first \<open>if\<close> of \<open>setupEnvironmentVariables\<close>\<close>
  "withTokens cfg envContent =
     (if isVercel cfg then
        (if \<not> includesStr envContent ''# Rollbar Configuration''
         then envContent @ vercelBlock cfg else envContent)
      else
        (if \<not> includesStr envContent serverTokenKey
         then envContent @ tokenBlock cfg else envContent))"

definition withCodeVersion :: "config \<Rightarrow> string \<Rightarrow> string" where
  \<comment> \<open>the second \<open>if\<close> of \<open>setupEnvironmentVariables\<close>\<close>
  "withCodeVersion cfg envContent =
     (if enableDeployment cfg \<and> truthy (codeVersion cfg) \<and>
         \<not> includesStr envContent ''ROLLBAR_CODE_VERSION''
      then envContent @ ''ROLLBAR_CODE_VERSION='' @ orDefault (codeVersion cfg) [] @ nl
      else if enableDeployment cfg \<and> \<not> includesStr envContent ''ROLLBAR_CODE_VERSION''
      then envContent @ codeVersionHint
      else envContent)"

definition updateGitignore :: "unit action" where
  \<comment> \<open>the block \<open>Add to .gitignore if not present\<close>\<close>
  "updateGitignore =
     withFiles (\<lambda>fs.
       if existsSync fs gitignore then
         andThen (readFile gitignore) (\<lambda>gitignoreContent.
           if \<not> includesStr gitignoreContent ''.env.local'' then
             writeFile gitignore
               (gitignoreContent @ nl @ ''# Environment variables'' @ nl @ ''.env.local'' @ nl)
           else ret ())
       else ret ())"

definition setupEnvironmentVariables :: "config \<Rightarrow> unit action" where
  "setupEnvironmentVariables cfg =
     andThen (withFiles (\<lambda>fs. if existsSync fs envLocal then readFile envLocal else ret []))
       (\<lambda>envContent.
         doAll
          [writeFile envLocal (withCodeVersion cfg (withTokens cfg envContent)),
           clackLog (Success ''Updated .env.local with Rollbar configuration''),
           updateGitignore])"


section \<open>The example page\<close>

definition createExamplePageFiles :: "collaborators \<Rightarrow> config \<Rightarrow> projectInfo \<Rightarrow> unit action" where
  \<comment> \<open>\<open>createExamplePage\<close>\<close>
  "createExamplePageFiles X cfg info =
     withFiles (\<lambda>fs.
       let hasSrcDirectory = hasDirectoryPathFromRoot fs [''src''];
           appFolderLocation =
             (if hasDirectoryPathFromRoot fs [''app''] then Some [''app'']
              else if hasDirectoryPathFromRoot fs [''src'', ''app''] then Some [''src'', ''app'']
              else None);
           pagesFolderLocation0 =
             (if hasDirectoryPathFromRoot fs [''pages''] then Some [''pages'']
              else if hasDirectoryPathFromRoot fs [''src'', ''pages''] then Some [''src'', ''pages'']
              else None);
           newPagesFolderLocation = (if hasSrcDirectory then [''src'', ''pages''] else [''pages'']);
           needsPagesFolder = (appFolderLocation = None \<and> pagesFolderLocation0 = None);
           pagesFolderLocation =
             (if needsPagesFolder then Some newPagesFolderLocation else pagesFolderLocation0);
           x = (if hasTypescript info then ''tsx'' else ''jsx'')
       in
       andThen (if needsPagesFolder then mkdirSync newPagesFolderLocation else ret ()) (\<lambda>_.
       case appFolderLocation of
         Some app \<Rightarrow>
           doAll
            [withFiles (\<lambda>fs1.
               if \<not> hasRootLayoutFile fs1 app then
                 doAll
                  [writeFile (app @ [''layout.'' @ x]) (getRootLayoutContent X (hasTypescript info)),
                   clackLog (Success (''Created '' @ displayPath (app @ [''layout.'' @ x]) @ ''.''))]
               else ret ()),
             mkdirSync (app @ [''rollbar-example-page'']),
             writeFile (app @ [''rollbar-example-page'', ''page.'' @ x])
               (getRollbarExamplePageContents X (clientAccessToken cfg) True (hasTypescript info) app),
             clackLog
               (Success
                  (''Created '' @ displayPath (app @ [''rollbar-example-page'', ''page.'' @ x]) @ ''.'')),
             mkdirSync (app @ [''api'', ''rollbar-example-api'']),
             writeFile (app @ [''api'', ''rollbar-example-api'', ''route.'' @ extOf info])
               (getRollbarExampleAppDirApiRoute X (hasTypescript info) app),
             clackLog
               (Success
                  (''Created '' @
                   displayPath (app @ [''api'', ''rollbar-example-api'', ''route.'' @ extOf info]) @
                   ''.''))]
       | None \<Rightarrow>
           (case pagesFolderLocation of
              None \<Rightarrow> ret ()
            | Some pages \<Rightarrow>
                doAll
                 [writeFile (pages @ [''rollbar-example-page.'' @ x])
                    (getRollbarExamplePageContents X (clientAccessToken cfg) False
                       (hasTypescript info) pages),
                  clackLog
                    (Success
                       (''Created '' @ displayPath (pages @ [''rollbar-example-page.'' @ x]) @ ''.'')),
                  mkdirSync (pages @ [''api'']),
                  writeFile (pages @ [''api'', ''rollbar-example-api.'' @ extOf info])
                    (getRollbarExamplePagesDirApiRoute X (hasTypescript info) pages),
                  clackLog
                    (Success
                       (''Created '' @
                        displayPath (pages @ [''api'', ''rollbar-example-api.'' @ extOf info]) @
                        ''.''))])))"


section \<open>The run\<close>

definition nonInteractiveConfig :: "collaborators \<Rightarrow> wizardOptions \<Rightarrow> projectInfo \<Rightarrow> config" where
  \<comment> \<open>the configuration of \<open>--yes\<close>\<close>
  "nonInteractiveConfig X options info =
     (let serverToken =
            orDefault (optAccessToken options)
              (orDefault (processEnv X ''ROLLBAR_PROJECT_ACCESS_SERVER_TOKEN'') []);
          clientToken =
            orDefault (processEnv X ''NEXT_PUBLIC_ROLLBAR_PROJECT_ACCESS_CLIENT_TOKEN'') serverToken
      in
      \<lparr> accessToken = serverToken,
        clientAccessToken = clientToken,
        serverAccessToken = serverToken,
        environment = orDefault (optEnvironment options) ''production'',
        enableDeployment = True,
        codeVersion = processEnv X ''ROLLBAR_CODE_VERSION'',
        enableSourcemaps = True,
        enableReplay = True,
        routerType =
          (if hasAppRouter info \<and> hasPagesRouter info then BothRouters
           else if hasPagesRouter info then PagesRouter
           else AppRouter),
        createExamplePage = False,
        isVercel = False,
        vercelClientTokenEnvVar = None,
        vercelServerTokenEnvVar = None \<rparr>)"

definition resolveConfig :: "collaborators \<Rightarrow> wizardOptions \<Rightarrow> projectInfo \<Rightarrow> config action" where
  "resolveConfig X options info =
     (if \<not> yes options then
        (\<lambda>s. (fst (gatherConfiguration X options info),
              s\<lparr>console := console s @ snd (gatherConfiguration X options info)\<rparr>))
      else ret (nonInteractiveConfig X options info))"

definition requireTokens :: "config \<Rightarrow> unit action" where
  "requireTokens cfg =
     (if \<not> isVercel cfg \<and> (serverAccessToken cfg = [] \<or> clientAccessToken cfg = []) then
        andThen
          (clackLog
            (Failure ''Both server and client access tokens are required. Get them from https://rollbar.com/''))
          (\<lambda>_. abort)
      else ret ())"

definition scaffoldSteps :: "collaborators \<Rightarrow> config \<Rightarrow> projectInfo \<Rightarrow> unit action" where
  \<comment> \<open>steps 2 to 6 of \<open>runNextjsWizard\<close>\<close>
  "scaffoldSteps X cfg info =
     doAll
      [createConfigFiles X cfg info,
       setupInstrumentationHook X info,
       setupErrorPages X info (routerType cfg),
       setupEnvironmentVariables cfg,
       if enableSourcemaps cfg then setupNextjsConfig X cfg info else ret ()]"

definition configurationSteps :: "collaborators \<Rightarrow> config \<Rightarrow> projectInfo \<Rightarrow> unit action" where
  \<comment> \<open>steps 2 to 8 of \<open>runNextjsWizard\<close>\<close>
  "configurationSteps X cfg info =
     doAll
      [scaffoldSteps X cfg info,
       if enableSourcemaps cfg then setupSourceMapUploadScript X cfg info else ret (),
       if createExamplePage cfg then createExamplePageFiles X cfg info else ret ()]"

definition installPackages :: "collaborators \<Rightarrow> wizardOptions \<Rightarrow> projectInfo \<Rightarrow> unit action" where
  \<comment> \<open>step 1 of \<open>runNextjsWizard\<close>\<close>
  "installPackages X options info =
     doAll
      [installPackage X ''rollbar@^3.0.0-rc.1'' (packageManager info) (skipInstall options),
       installPackage X ''@rollbar/react'' (packageManager info) (skipInstall options)]"

definition packageManagerName :: "packageManager \<Rightarrow> string" where
  "packageManagerName pm = (case pm of Npm \<Rightarrow> ''npm'' | Yarn \<Rightarrow> ''yarn'' | Pnpm \<Rightarrow> ''pnpm'')"

definition checkMark :: string where
  \<comment> \<open>the check mark U+2705 of the messages, as the three bytes of its UTF-8 form\<close>
  "checkMark = [CHR 0xE2, CHR 0x9C, CHR 0x85]"

definition reportDetected :: "projectInfo \<Rightarrow> unit action" where
  \<comment> \<open>the \<open>clack.log.info\<close> calls that follow the inspection\<close>
  "reportDetected info =
     doAll
      [clackLog
         (Info (''Detected Next.js '' @ nextVersion info @ '' with '' @
                packageManagerName (packageManager info))),
       if hasAppRouter info then clackLog (Info (checkMark @ '' App Router detected'')) else ret (),
       if hasPagesRouter info then clackLog (Info (checkMark @ '' Pages Router detected''))
       else ret (),
       if hasTypescript info then clackLog (Info (checkMark @ '' TypeScript detected''))
       else ret ()]"

definition runNextjsWizard :: "collaborators \<Rightarrow> wizardOptions \<Rightarrow> unit action" where
  "runNextjsWizard X options =
     tryCatch
       (andThen (detectProjectStructure X) (\<lambda>info.
        andThen (reportDetected info) (\<lambda>_.
        andThen (resolveConfig X options info) (\<lambda>cfg.
        doAll
         [requireTokens cfg,
          installPackages X options info,
          configurationSteps X cfg info]))))
       (\<lambda>e.
         doAll
          [clackLog (Failure ''Setup failed''),
           clackLog (FailureMessage e),
           abort])"


section \<open>Project states on which a step has nothing left to do\<close>


definition configPaths :: "path list" where
  "configPaths =
     [[''rollbar.server.config.ts''], [''rollbar.edge.config.ts''], [''rollbar.client.config.ts''],
      [''rollbar.server.config.js''], [''rollbar.edge.config.js''], [''rollbar.client.config.js'']]"

definition hookPaths :: "path list" where
  "hookPaths =
     [[''instrumentation.ts''], [''instrumentation.js''],
      [''src'', ''instrumentation.ts''], [''src'', ''instrumentation.js'']]"

definition hookReads :: "path list" where
  "hookReads = [[''app''], [''pages''], [''src'']] @ hookPaths"





definition pagesErrorPaths :: "path list" where
  "pagesErrorPaths =
     map (\<lambda>n. [''pages'', n]) underscoreErrorVariants @
     map (\<lambda>n. [''src'', ''pages'', n]) underscoreErrorVariants"

definition appErrorPaths :: "path list" where
  "appErrorPaths =
     map (\<lambda>n. [''app'', n]) globalErrorVariants @
     map (\<lambda>n. [''src'', ''app'', n]) globalErrorVariants"

definition pagesErrorReads :: "path list" where
  "pagesErrorReads = [[''pages''], [''src'', ''pages'']] @ pagesErrorPaths"

definition appErrorReads :: "path list" where
  "appErrorReads = [[''app''], [''src'', ''app'']] @ appErrorPaths"




definition envPaths :: "path list" where
  "envPaths = [envLocal, gitignore]"


definition nextConfigPaths :: "path list" where
  "nextConfigPaths = [[''next.config.js''], [''next.config.mjs''], [''next.config.ts'']]"




definition agreeOn :: "path list \<Rightarrow> filesystem \<Rightarrow> filesystem \<Rightarrow> bool" where
  "agreeOn ps fs fs' = list_all (\<lambda>p. fs' p = fs p) ps"


definition changesOnly :: "path list \<Rightarrow> filesystem \<Rightarrow> filesystem \<Rightarrow> bool" where
  \<comment> \<open>outside \<open>ps\<close> the two project directories are the same\<close>
  "changesOnly ps fs fs' = (\<forall>p. p \<notin> set ps \<longrightarrow> fs' p = fs p)"


definition requiredPackages :: "projectInfo \<Rightarrow> string list" where
  \<comment> \<open>\<open>requiredPackages\<close> of \<open>setupSourceMapUploadScript\<close>\<close>
  "requiredPackages info =
     [''form-data'', ''node-fetch'', ''glob''] @
     (if hasTypescript info then [''tsx'', ''@types/glob''] else [])"

definition scriptFile :: "projectInfo \<Rightarrow> path" where
  \<comment> \<open>\<open>scriptPath\<close>\<close>
  "scriptFile info = [''scripts'', ''upload-sourcemaps.'' @ extOf info]"

definition scriptPaths :: "path list" where
  "scriptPaths =
     [[''scripts''], [''scripts'', ''upload-sourcemaps.ts''], [''scripts'', ''upload-sourcemaps.js'']]"

definition manifestPaths :: "path list" where
  "manifestPaths = [[''package.json''], [''tsconfig.json'']]"

definition tsconfigSettled :: "collaborators \<Rightarrow> projectInfo \<Rightarrow> filesystem \<Rightarrow> bool" where
  "tsconfigSettled X info fs =
     (hasTypescript info \<longrightarrow>
        (case fs [''tsconfig.json''] of
           Some (File c) \<Rightarrow>
             (case parseTsconfig X c of
                None \<Rightarrow> True
              | Some tsc \<Rightarrow> ''scripts'' \<in> set (case exclude tsc of None \<Rightarrow> [] | Some xs \<Rightarrow> xs))
         | _ \<Rightarrow> True))"

definition manifestSettled :: "collaborators \<Rightarrow> projectInfo \<Rightarrow> filesystem \<Rightarrow> bool" where
  "manifestSettled X info fs =
     (case getPackageJson X fs of
        None \<Rightarrow> False
      | Some pj \<Rightarrow>
          list_all (\<lambda>pkg. \<not> isMissing (Some pj) pkg) (requiredPackages info) \<and>
          truthy (postbuildOf pj) \<and>
          includesStr (orDefault (postbuildOf pj) []) ''upload-sourcemaps'')"

definition scriptSettled :: "collaborators \<Rightarrow> config \<Rightarrow> projectInfo \<Rightarrow> filesystem \<Rightarrow> bool" where
  "scriptSettled X cfg info fs =
     (enableSourcemaps cfg \<longrightarrow>
        fs [''scripts''] = Some Dir \<and>
        fs (scriptFile info) =
          Some (File (getSourceMapUploadScriptTemplate X (hasTypescript info) (isVercel cfg)
                        (vercelServerTokenEnvVar cfg))) \<and>
        manifestSettled X info fs \<and> tsconfigSettled X info fs)"

definition writeUploadScript :: "collaborators \<Rightarrow> config \<Rightarrow> projectInfo \<Rightarrow> unit action" where
  \<comment> \<open>the first part of \<open>setupSourceMapUploadScript\<close>: the directory and the script\<close>
  "writeUploadScript X cfg info =
     doAll
      [withFiles (\<lambda>fs. if \<not> existsSync fs [''scripts''] then mkdirSync [''scripts''] else ret ()),
       writeFile (scriptFile info)
         (getSourceMapUploadScriptTemplate X (hasTypescript info) (isVercel cfg)
            (vercelServerTokenEnvVar cfg)),
       clackLog (Success (''Created scripts/upload-sourcemaps.'' @ extOf info))]"

definition ensureDevDependencies :: "collaborators \<Rightarrow> string list \<Rightarrow> unit action" where
  \<comment> \<open>the block \<open>Explicitly ensure packages are in package.json\<close>\<close>
  "ensureDevDependencies X missingPackages =
     withFiles (\<lambda>fs1.
       case getPackageJson X fs1 of
         None \<Rightarrow> ret ()
       | Some updatedPackageJson \<Rightarrow>
           if missingPackages \<noteq> [] then
             doAll
              [writePackageJson X (addMissingDevDependencies missingPackages updatedPackageJson),
               clackLog (Info ''Updated package.json with required dependencies'')]
           else ret ())"

definition manifestBlocks :: "collaborators \<Rightarrow> projectInfo \<Rightarrow> string list \<Rightarrow> unit action" where
  \<comment> \<open>what \<open>setupSourceMapUploadScript\<close> does once \<open>missingPackages\<close> is known\<close>
  "manifestBlocks X info missingPackages =
     doAll
      [if missingPackages \<noteq> [] then installMissingPackages X missingPackages else ret (),
       ensureDevDependencies X missingPackages,
       addPostbuildScript X info,
       excludeScriptsFromTypeChecking X info]"

definition withUploadCommand :: "projectInfo \<Rightarrow> packageJson \<Rightarrow> packageJson" where
  \<comment> \<open>the manifest that \<open>addPostbuildScript\<close> leaves\<close>
  "withUploadCommand info pj =
     (if \<not> truthy (postbuildOf pj) then setPostbuild (uploadCommand info) pj
      else if \<not> includesStr (orDefault (postbuildOf pj) []) ''upload-sourcemaps'' then
        setPostbuild (orDefault (postbuildOf pj) [] @ '' && '' @ uploadCommand info) pj
      else pj)"

definition manifestIs :: "collaborators \<Rightarrow> packageJson \<Rightarrow> filesystem \<Rightarrow> bool" where
  "manifestIs X pj fs = (getPackageJson X fs = Some pj)"

definition pageExt :: "projectInfo \<Rightarrow> string" where
  "pageExt info = (if hasTypescript info then ''tsx'' else ''jsx'')"

definition exampleSettled :: "collaborators \<Rightarrow> config \<Rightarrow> projectInfo \<Rightarrow> filesystem \<Rightarrow> bool" where
  "exampleSettled X cfg info fs =
     (createExamplePage cfg \<longrightarrow>
        (case getMaybeAppDirLocation fs of
           Some app \<Rightarrow>
             hasRootLayoutFile fs app \<and>
             (app = [''src'', ''app''] \<longrightarrow> fs [''src''] = Some Dir) \<and>
             fs (app @ [''rollbar-example-page'']) = Some Dir \<and>
             fs (app @ [''rollbar-example-page'', ''page.'' @ pageExt info]) =
               Some (File (getRollbarExamplePageContents X (clientAccessToken cfg) True
                             (hasTypescript info) app)) \<and>
             fs (app @ [''api'']) = Some Dir \<and>
             fs (app @ [''api'', ''rollbar-example-api'']) = Some Dir \<and>
             fs (app @ [''api'', ''rollbar-example-api'', ''route.'' @ extOf info]) =
               Some (File (getRollbarExampleAppDirApiRoute X (hasTypescript info) app))
         | None \<Rightarrow>
             (case getMaybePagesDirLocation fs of
                None \<Rightarrow> False
              | Some pages \<Rightarrow>
                  (pages = [''src'', ''pages''] \<longrightarrow> fs [''src''] = Some Dir) \<and>
                  fs (pages @ [''rollbar-example-page.'' @ pageExt info]) =
                    Some (File (getRollbarExamplePageContents X (clientAccessToken cfg) False
                                  (hasTypescript info) pages)) \<and>
                  fs (pages @ [''api'']) = Some Dir \<and>
                  fs (pages @ [''api'', ''rollbar-example-api.'' @ extOf info]) =
                    Some (File (getRollbarExamplePagesDirApiRoute X (hasTypescript info) pages)))))"

definition examplePathsIn :: "path \<Rightarrow> path list" where
  "examplePathsIn d =
     [d @ [''layout.tsx''], d @ [''layout.jsx''],
      d @ [''rollbar-example-page''],
      d @ [''rollbar-example-page'', ''page.tsx''], d @ [''rollbar-example-page'', ''page.jsx''],
      d @ [''api''], d @ [''api'', ''rollbar-example-api''],
      d @ [''api'', ''rollbar-example-api'', ''route.ts''],
      d @ [''api'', ''rollbar-example-api'', ''route.js''],
      d @ [''rollbar-example-page.tsx''], d @ [''rollbar-example-page.jsx''],
      d @ [''api'', ''rollbar-example-api.ts''], d @ [''api'', ''rollbar-example-api.js'']]"

definition examplePaths :: "path list" where
  "examplePaths =
     examplePathsIn [''app''] @ examplePathsIn [''src'', ''app''] @
     examplePathsIn [''pages''] @ examplePathsIn [''src'', ''pages'']"

definition watchedPaths :: "path list" where
  \<comment> \<open>what the steps 2 to 7 probe, read or write, the manifest apart\<close>
  "watchedPaths =
     configPaths @ hookReads @ pagesErrorReads @ appErrorReads @ envPaths @ nextConfigPaths @
     scriptPaths @ [[''tsconfig.json'']]"

definition hasRoutingDirectory :: "filesystem \<Rightarrow> bool" where
  "hasRoutingDirectory fs =
     (getMaybeAppDirLocation fs \<noteq> None \<or> getMaybePagesDirLocation fs \<noteq> None)"

definition treeShaped :: "filesystem \<Rightarrow> bool" where
  \<comment> \<open>every node below the working directory lies in a directory\<close>
  "treeShaped fs = (\<forall>p. fs p \<noteq> None \<longrightarrow> parentIsDirectory fs p)"

definition preserves :: "(filesystem \<Rightarrow> bool) \<Rightarrow> 'a action \<Rightarrow> bool" where
  "preserves Q m = (\<forall>s. Q (files s) \<longrightarrow> Q (files (snd (m s))))"

definition neverExits :: "'a action \<Rightarrow> bool" where
  "neverExits m = (\<forall>s n. fst (m s) \<noteq> Exits n)"

definition alwaysReturns :: "unit action \<Rightarrow> bool" where
  "alwaysReturns m = (\<forall>s. fst (m s) = Returns ())"


section \<open>Assumptions on the collaborators\<close>

text \<open>
  What a property of a step may have to assume of the JSON printer and reader and of the
  package manager that runs in the subprocess.
\<close>

definition jsonRoundTrip :: "collaborators \<Rightarrow> bool" where
  \<comment> \<open>\<open>JSON.parse(JSON.stringify(pj, null, 2) + '\n')\<close> is \<open>pj\<close> again\<close>
  "jsonRoundTrip X = (\<forall>pj. parseJson X (stringifyJson X pj @ nl) = Some pj)"

definition tsconfigRoundTrip :: "collaborators \<Rightarrow> bool" where
  "tsconfigRoundTrip X = (\<forall>tsc. parseTsconfig X (stringifyTsconfig X tsc @ nl) = Some tsc)"

definition keepsScripts :: "collaborators \<Rightarrow> packageJson \<Rightarrow> filesystem \<Rightarrow> bool" where
  "keepsScripts X pj fs =
     (case getPackageJson X fs of None \<Rightarrow> False | Some pj' \<Rightarrow> scripts pj' = scripts pj)"

definition subprocessKeepsScripts :: "collaborators \<Rightarrow> bool" where
  \<comment> \<open>a subprocess leaves the manifest readable, with the scripts it had\<close>
  "subprocessKeepsScripts X =
     (\<forall>command fs pj. keepsScripts X pj fs \<longrightarrow>
        keepsScripts X pj (snd (execCommand X command fs)))"

definition keepsDependencies :: "collaborators \<Rightarrow> string list \<Rightarrow> filesystem \<Rightarrow> bool" where
  "keepsDependencies X pkgs fs =
     (case getPackageJson X fs of
        None \<Rightarrow> False
      | Some pj' \<Rightarrow> list_all (\<lambda>pkg. \<not> isMissing (Some pj') pkg) pkgs)"

definition subprocessKeepsDependencies :: "collaborators \<Rightarrow> bool" where
  \<comment> \<open>a subprocess leaves the manifest readable and removes no package from it\<close>
  "subprocessKeepsDependencies X =
     (\<forall>command fs pkgs. keepsDependencies X pkgs fs \<longrightarrow>
        keepsDependencies X pkgs (snd (execCommand X command fs)))"

definition subprocessKeepsProject :: "collaborators \<Rightarrow> bool" where
  \<comment> \<open>a subprocess changes none of the files that the wizard probes, reads or writes, the
      manifest apart\<close>
  "subprocessKeepsProject X =
     (\<forall>command fs. agreeOn watchedPaths fs (snd (execCommand X command fs)))"


section \<open>Example projects\<close>


definition demoManifest :: packageJson where
  "demoManifest =
     \<lparr> moduleType = None,
       dependencies = Some [(''next'', ''14.2.0''), (''react'', ''18.3.0'')],
       devDependencies = None,
       scripts = Some [(''build'', ''next build''), (''postbuild'', ''next-sitemap'')],
       otherKeys = [(''name'', ''demo'')] \<rparr>"

definition printScripts :: "packageJson \<Rightarrow> string" where
  \<comment> \<open>a stand-in for the JSON printer: the script entries only\<close>
  "printScripts pj =
     joinWith ''; ''
       (map (\<lambda>(k, v). k @ '': '' @ v) (case scripts pj of None \<Rightarrow> [] | Some sc \<Rightarrow> sc))"

definition demoCollaborators :: collaborators where
  \<comment> \<open>every subprocess exits with a code other than zero and changes nothing; the reader
      accepts two manifest texts, \<open>demo\<close> and \<open>empty postbuild\<close>\<close>
  "demoCollaborators =
     \<lparr> execCommand = (\<lambda>command fs. (False, fs)),
       parseJson =
         (\<lambda>text.
            if text = ''demo'' then Some demoManifest
            else if text = ''empty postbuild''
              then Some (demoManifest\<lparr>scripts := Some [(''build'', ''next build''), (''postbuild'', [])]\<rparr>)
            else None),
       stringifyJson = printScripts,
       parseTsconfig = (\<lambda>text. None),
       stringifyTsconfig = (\<lambda>tsc. ''tsconfig''),
       processEnv = (\<lambda>name. None),
       gatherConfiguration = (\<lambda>options info. (Exits 1, [Step ''Deployment Platform''])),
       confirmInstrumentation = Yes,
       getRollbarServerConfigContents = (\<lambda>env version vercel name. ''server''),
       getRollbarEdgeConfigContents = (\<lambda>env version vercel name. ''edge''),
       getRollbarClientConfigContents = (\<lambda>env version replay maps vercel name. ''client''),
       getInstrumentationHookContent = (\<lambda>location. ''hook''),
       getRollbarDefaultUnderscoreErrorPage = (\<lambda>location. ''error page''),
       getRollbarDefaultGlobalErrorPage = (\<lambda>ts location. ''global error page''),
       getSourceMapUploadScriptTemplate = (\<lambda>ts vercel name. ''script''),
       getRootLayoutContent = (\<lambda>ts. ''layout''),
       getRollbarExamplePageContents = (\<lambda>token client ts location. ''page''),
       getRollbarExampleAppDirApiRoute = (\<lambda>ts location. ''route''),
       getRollbarExamplePagesDirApiRoute = (\<lambda>ts location. ''route'') \<rparr>"

definition demoConfig :: config where
  "demoConfig =
     \<lparr> accessToken = ''post_server_item_1'',
       clientAccessToken = ''post_client_item_1'',
       serverAccessToken = ''post_server_item_1'',
       environment = ''production'',
       enableDeployment = True,
       codeVersion = Some ''1.0.0'',
       enableSourcemaps = True,
       enableReplay = True,
       routerType = AppRouter,
       createExamplePage = False,
       isVercel = False,
       vercelClientTokenEnvVar = None,
       vercelServerTokenEnvVar = None \<rparr>"

definition demoInfo :: projectInfo where
  "demoInfo =
     \<lparr> hasTypescript = True, hasAppRouter = True, hasPagesRouter = False,
       packageManager = Npm, nextVersion = ''14.2.0'' \<rparr>"

definition demoOptions :: wizardOptions where
  "demoOptions =
     \<lparr> optAccessToken = Some ''post_server_item_1'', optEnvironment = None,
       skipInstall = False, yes = True \<rparr>"

definition project :: "(path \<times> node) list \<Rightarrow> wstate" where
  \<comment> \<open>a project directory with the listed nodes, before anything is printed\<close>
  "project nodes = \<lparr> files = map_of nodes, console = [] \<rparr>"

definition customNextConfig :: string where
  \<comment> \<open>a hand-written \<open>next.config.js\<close> with four settings\<close>
  "customNextConfig =
     ''module.exports = {'' @ nl @
     ''  reactStrictMode: true,'' @ nl @
     ''  poweredByHeader: false,'' @ nl @
     ''  trailingSlash: true,'' @ nl @
     ''  images: { domains: ['example.com'] },'' @ nl @
     ''};'' @ nl"


subsection \<open>A printer and a reader that round-trip\<close>

text \<open>
  The examples that write a manifest and read it again need a printer whose output the
  reader takes back. The text is a sequence of tokens: a character \<open>x\<close> of a token is
  written \<open>cx\<close>, a token ends with a full stop, and a line feed ends the text.
\<close>

definition encodeChars :: "string \<Rightarrow> string" where
  "encodeChars s = concat (map (\<lambda>x. [CHR ''c'', x]) s)"

definition encodeTokens :: "string list \<Rightarrow> string" where
  "encodeTokens ts = concat (map (\<lambda>t. encodeChars t @ ''.'') ts)"

fun decodeTokens :: "string \<Rightarrow> string \<Rightarrow> string list option" where
  "decodeTokens acc [] = None"
| "decodeTokens acc (m # r) =
     (if m = CHR ''.'' then map_option ((#) (rev acc)) (decodeTokens [] r)
      else if m = CHR 0x0A then (if acc = [] \<and> r = [] then Some [] else None)
      else (case r of [] \<Rightarrow> None | x # r' \<Rightarrow> decodeTokens (x # acc) r'))"

fun pairTokens :: "stringRecord \<Rightarrow> string list" where
  "pairTokens [] = []"
| "pairTokens ((k, v) # al) = k # v # pairTokens al"

definition recordTokens :: "stringRecord \<Rightarrow> string list" where
  "recordTokens al = replicate (length al) CHR ''1'' # pairTokens al"

definition optionTokens :: "string option \<Rightarrow> string list" where
  "optionTokens v = (case v of None \<Rightarrow> [''-''] | Some x \<Rightarrow> [''+'', x])"

definition optionRecordTokens :: "stringRecord option \<Rightarrow> string list" where
  "optionRecordTokens r = (case r of None \<Rightarrow> [''-''] | Some al \<Rightarrow> ''+'' # recordTokens al)"

definition optionListTokens :: "string list option \<Rightarrow> string list" where
  "optionListTokens r =
     (case r of None \<Rightarrow> [''-''] | Some xs \<Rightarrow> ''+'' # replicate (length xs) CHR ''1'' # xs)"

fun readPairs :: "nat \<Rightarrow> string list \<Rightarrow> (stringRecord \<times> string list) option" where
  "readPairs 0 ts = Some ([], ts)"
| "readPairs (Suc n) (k # v # r) = map_option (\<lambda>(al, r'). ((k, v) # al, r')) (readPairs n r)"
| "readPairs (Suc n) [k] = None"
| "readPairs (Suc n) [] = None"

definition readRecord :: "string list \<Rightarrow> (stringRecord \<times> string list) option" where
  "readRecord ts = (case ts of [] \<Rightarrow> None | c # r \<Rightarrow> readPairs (length c) r)"

definition readOption :: "string list \<Rightarrow> (string option \<times> string list) option" where
  "readOption ts =
     (case ts of
        [] \<Rightarrow> None
      | t # r \<Rightarrow>
          if t = ''-'' then Some (None, r)
          else (case r of [] \<Rightarrow> None | x # r' \<Rightarrow> Some (Some x, r')))"

definition readOptionRecord :: "string list \<Rightarrow> (stringRecord option \<times> string list) option" where
  "readOptionRecord ts =
     (case ts of
        [] \<Rightarrow> None
      | t # r \<Rightarrow>
          if t = ''-'' then Some (None, r)
          else map_option (\<lambda>(al, r'). (Some al, r')) (readRecord r))"

definition readOptionList :: "string list \<Rightarrow> (string list option \<times> string list) option" where
  "readOptionList ts =
     (case ts of
        [] \<Rightarrow> None
      | t # r \<Rightarrow>
          if t = ''-'' then Some (None, r)
          else (case r of
                  [] \<Rightarrow> None
                | c # r' \<Rightarrow>
                    if length r' < length c then None
                    else Some (Some (take (length c) r'), drop (length c) r')))"

definition manifestTokens :: "packageJson \<Rightarrow> string list" where
  "manifestTokens pj =
     optionTokens (moduleType pj) @ optionRecordTokens (dependencies pj) @
     optionRecordTokens (devDependencies pj) @ optionRecordTokens (scripts pj) @
     recordTokens (otherKeys pj)"

definition readManifest :: "string list \<Rightarrow> packageJson option" where
  "readManifest ts =
     Option.bind (readOption ts) (\<lambda>(m, r1).
     Option.bind (readOptionRecord r1) (\<lambda>(d, r2).
     Option.bind (readOptionRecord r2) (\<lambda>(dd, r3).
     Option.bind (readOptionRecord r3) (\<lambda>(sc, r4).
     Option.bind (readRecord r4) (\<lambda>(ok, r5).
       if r5 = [] then
         Some \<lparr> moduleType = m, dependencies = d, devDependencies = dd, scripts = sc,
                otherKeys = ok \<rparr>
       else None)))))"

definition printManifest :: "packageJson \<Rightarrow> string" where
  "printManifest pj = encodeTokens (manifestTokens pj)"

definition parseManifest :: "string \<Rightarrow> packageJson option" where
  "parseManifest text = Option.bind (decodeTokens [] text) readManifest"

definition tsconfigTokens :: "tsconfig \<Rightarrow> string list" where
  "tsconfigTokens tsc = optionListTokens (exclude tsc) @ recordTokens (otherOptions tsc)"

definition readTsconfig :: "string list \<Rightarrow> tsconfig option" where
  "readTsconfig ts =
     Option.bind (readOptionList ts) (\<lambda>(ex, r1).
     Option.bind (readRecord r1) (\<lambda>(oo, r2).
       if r2 = [] then Some \<lparr> exclude = ex, otherOptions = oo \<rparr> else None))"

definition printTsconfig :: "tsconfig \<Rightarrow> string" where
  "printTsconfig tsc = encodeTokens (tsconfigTokens tsc)"

definition parseTsconfigText :: "string \<Rightarrow> tsconfig option" where
  "parseTsconfigText text = Option.bind (decodeTokens [] text) readTsconfig"

definition codecCollaborators :: collaborators where
  \<comment> \<open>as \<open>demoCollaborators\<close>, with the printers and readers above, and a subprocess that
      exits with zero and leaves a lock file\<close>
  "codecCollaborators =
     demoCollaborators
       \<lparr> execCommand := (\<lambda>command fs. (True, fs([''package-lock.json''] \<mapsto> File ''lock''))),
         parseJson := parseManifest,
         stringifyJson := printManifest,
         parseTsconfig := parseTsconfigText,
         stringifyTsconfig := printTsconfig \<rparr>"

definition manifestText :: "packageJson \<Rightarrow> node" where
  \<comment> \<open>a \<open>package.json\<close> as the wizard writes it\<close>
  "manifestText pj = File (printManifest pj @ nl)"

definition emptyPostbuildManifest :: packageJson where
  \<comment> \<open>a manifest whose \<open>postbuild\<close> script is the empty string\<close>
  "emptyPostbuildManifest =
     demoManifest\<lparr>scripts := Some [(''build'', ''next build''), (''postbuild'', [])]\<rparr>"

definition uploadingManifest :: packageJson where
  \<comment> \<open>a manifest whose \<open>postbuild\<close> script runs the upload script already\<close>
  "uploadingManifest =
     demoManifest\<lparr>scripts :=
       Some [(''build'', ''next build''), (''postbuild'', ''node scripts/upload-sourcemaps.js'')]\<rparr>"


section \<open>Strings\<close>

lemma includesStr_sublist: "includesStr s t \<longleftrightarrow> sublist t s"
proof (induction s)
  case Nil
  show ?case by simp
next
  case (Cons c s)
  show ?case
  proof (cases t)
    case Nil
    then show ?thesis by simp
  next
    case (Cons d u)
    then show ?thesis using Cons.IH by (simp add: sublist_Cons_right)
  qed
qed

lemma includesStr_self: "includesStr t t"
  by (simp add: includesStr_sublist)

lemma includesStr_appendI1: "includesStr a t \<Longrightarrow> includesStr (a @ b) t"
  unfolding includesStr_sublist sublist_def by (metis append.assoc)

lemma includesStr_appendI2: "includesStr b t \<Longrightarrow> includesStr (a @ b) t"
  unfolding includesStr_sublist sublist_def by (metis append.assoc)


section \<open>Actions\<close>

lemmas action_defs =
  andThen_def ret_def throwError_def tryCatch_def clackLog_def abort_def withFiles_def

lemma andThen_ret_unit [simp]: "andThen m ret = (m :: unit action)"
proof (rule ext)
  fix s
  obtain r s' where m: "m s = (r, s')" by (cases "m s")
  show "andThen m ret s = m s"
    by (cases r) (simp_all add: andThen_def ret_def m)
qed

lemma doAll_single [simp]: "doAll [m] = m"
  by simp

lemma andThen_Returns: "m s = (Returns x, s') \<Longrightarrow> andThen m f s = f x s'"
  by (simp add: andThen_def)

lemma andThen_clackLog [simp]:
  "andThen (clackLog out) f s = f () (s\<lparr>console := console s @ [out]\<rparr>)"
  by (simp add: andThen_def clackLog_def)

lemma andThen_ret [simp]: "andThen (ret x) f = f x"
  by (rule ext) (simp add: andThen_def ret_def)

lemma writeFile_absent_root:
  "files s [n] = None \<Longrightarrow>
   writeFile [n] c s = (Returns (), s\<lparr>files := (files s)([n] \<mapsto> File c)\<rparr>)"
  by (simp add: writeFile_def parentIsDirectory_def)

lemma writeFile_absent_in_dir:
  "files s (d @ [n]) = None \<Longrightarrow> files s d = Some Dir \<Longrightarrow>
   writeFile (d @ [n]) c s = (Returns (), s\<lparr>files := (files s)(d @ [n] \<mapsto> File c)\<rparr>)"
  by (simp add: writeFile_def parentIsDirectory_def)


section \<open>The printer and the reader of the examples\<close>

lemma decodeTokens_chars:
  "decodeTokens acc (encodeChars s @ CHR ''.'' # r) =
     map_option ((#) (rev acc @ s)) (decodeTokens [] r)"
  by (induction s arbitrary: acc) (simp_all add: encodeChars_def)

lemma decodeTokens_encodeTokens: "decodeTokens [] (encodeTokens ts @ nl) = Some ts"
proof (induction ts)
  case Nil
  show ?case by (simp add: encodeTokens_def nl_def)
next
  case (Cons t ts)
  have "encodeTokens (t # ts) @ nl = encodeChars t @ CHR ''.'' # (encodeTokens ts @ nl)"
    by (simp add: encodeTokens_def)
  then show ?case using Cons by (simp add: decodeTokens_chars)
qed

lemma readPairs_pairTokens: "readPairs (length al) (pairTokens al @ r) = Some (al, r)"
  by (induction al) auto

lemma readRecord_recordTokens: "readRecord (recordTokens al @ r) = Some (al, r)"
  by (simp add: readRecord_def recordTokens_def readPairs_pairTokens)

lemma readOption_optionTokens: "readOption (optionTokens v @ r) = Some (v, r)"
  by (cases v) (simp_all add: readOption_def optionTokens_def)

lemma readOptionRecord_optionRecordTokens:
  "readOptionRecord (optionRecordTokens v @ r) = Some (v, r)"
proof (cases v)
  case None
  then show ?thesis by (simp add: readOptionRecord_def optionRecordTokens_def)
next
  case (Some al)
  have "readRecord (recordTokens al @ r) = Some (al, r)" by (rule readRecord_recordTokens)
  then show ?thesis using Some by (simp add: readOptionRecord_def optionRecordTokens_def)
qed

lemma readOptionList_optionListTokens: "readOptionList (optionListTokens v @ r) = Some (v, r)"
  by (cases v) (simp_all add: readOptionList_def optionListTokens_def)

lemma readManifest_manifestTokens: "readManifest (manifestTokens pj) = Some pj"
proof -
  have "readRecord (recordTokens (otherKeys pj)) = Some (otherKeys pj, [])"
    using readRecord_recordTokens [of "otherKeys pj" "[]"] by simp
  then show ?thesis
    by (simp add: readManifest_def manifestTokens_def readOption_optionTokens
        readOptionRecord_optionRecordTokens)
qed

lemma parseManifest_printManifest: "parseManifest (printManifest pj @ nl) = Some pj"
  by (simp add: parseManifest_def printManifest_def decodeTokens_encodeTokens
      readManifest_manifestTokens)

lemma readTsconfig_tsconfigTokens: "readTsconfig (tsconfigTokens tsc) = Some tsc"
proof -
  have "readRecord (recordTokens (otherOptions tsc)) = Some (otherOptions tsc, [])"
    using readRecord_recordTokens [of "otherOptions tsc" "[]"] by simp
  then show ?thesis
    by (simp add: readTsconfig_def tsconfigTokens_def readOptionList_optionListTokens)
qed

lemma parseTsconfigText_printTsconfig: "parseTsconfigText (printTsconfig tsc @ nl) = Some tsc"
  by (simp add: parseTsconfigText_def printTsconfig_def decodeTokens_encodeTokens
      readTsconfig_tsconfigTokens)

lemma codec_jsonRoundTrip: "jsonRoundTrip codecCollaborators"
  by (simp add: jsonRoundTrip_def codecCollaborators_def parseManifest_printManifest)

lemma codec_tsconfigRoundTrip: "tsconfigRoundTrip codecCollaborators"
  by (simp add: tsconfigRoundTrip_def codecCollaborators_def parseTsconfigText_printTsconfig)

lemma codec_getPackageJson:
  "fs [''package.json''] = Some (manifestText pj) \<Longrightarrow>
   getPackageJson codecCollaborators fs = Some pj"
  by (simp add: getPackageJson_def manifestText_def codecCollaborators_def
      parseManifest_printManifest)

lemma codec_exec_manifest:
  "getPackageJson codecCollaborators (snd (execCommand codecCollaborators command fs)) =
     getPackageJson codecCollaborators fs"
  by (simp add: codecCollaborators_def getPackageJson_def)

lemma codec_subprocessKeepsScripts: "subprocessKeepsScripts codecCollaborators"
  unfolding subprocessKeepsScripts_def keepsScripts_def codec_exec_manifest by simp

lemma codec_subprocessKeepsDependencies: "subprocessKeepsDependencies codecCollaborators"
  unfolding subprocessKeepsDependencies_def keepsDependencies_def codec_exec_manifest by simp

lemma codec_subprocessKeepsProject: "subprocessKeepsProject codecCollaborators"
  by (simp add: subprocessKeepsProject_def agreeOn_def watchedPaths_def codecCollaborators_def
      configPaths_def hookReads_def hookPaths_def pagesErrorReads_def pagesErrorPaths_def
      appErrorReads_def appErrorPaths_def envPaths_def nextConfigPaths_def scriptPaths_def
      underscoreErrorVariants_def globalErrorVariants_def envLocal_def gitignore_def)


section \<open>Properties of the project directory kept by an action\<close>

lemma preserves_ret: "preserves Q (ret x)"
  by (simp add: preserves_def ret_def)

lemma preserves_clackLog: "preserves Q (clackLog out)"
  by (simp add: preserves_def clackLog_def)

lemma preserves_throwError: "preserves Q (throwError e)"
  by (simp add: preserves_def throwError_def)

lemma preserves_andThen:
  assumes "preserves Q m" and "\<And>x. preserves Q (f x)"
  shows "preserves Q (andThen m f)"
  unfolding preserves_def
proof (intro allI impI)
  fix s :: wstate assume q: "Q (files s)"
  obtain r s' where ms: "m s = (r, s')" by (cases "m s")
  have q': "Q (files s')" using assms(1) q ms by (auto simp: preserves_def dest: spec [of _ s])
  show "Q (files (snd (andThen m f s)))"
  proof (cases r)
    case (Returns x)
    then show ?thesis
      using assms(2) [of x] q' ms by (auto simp: andThen_def preserves_def dest: spec [of _ s'])
  qed (use q' ms in \<open>simp_all add: andThen_def\<close>)
qed

lemma preserves_doAll:
  assumes "\<And>m. m \<in> set ms \<Longrightarrow> preserves Q m"
  shows "preserves Q (doAll ms)"
  using assms
proof (induction ms)
  case Nil
  show ?case by (simp add: preserves_ret)
next
  case (Cons m ms)
  show ?case
    unfolding doAll.simps
    by (rule preserves_andThen) (simp_all add: Cons)
qed

lemma preserves_tryCatch:
  assumes "preserves Q m" and "\<And>e. preserves Q (h e)"
  shows "preserves Q (tryCatch m h)"
  unfolding preserves_def
proof (intro allI impI)
  fix s :: wstate assume q: "Q (files s)"
  obtain r s' where ms: "m s = (r, s')" by (cases "m s")
  have q': "Q (files s')" using assms(1) q ms by (auto simp: preserves_def dest: spec [of _ s])
  show "Q (files (snd (tryCatch m h s)))"
  proof (cases r)
    case (Throws e)
    then show ?thesis
      using assms(2) [of e] q' ms by (auto simp: tryCatch_def preserves_def dest: spec [of _ s'])
  qed (use q' ms in \<open>simp_all add: tryCatch_def\<close>)
qed

lemma preserves_withFiles:
  assumes "\<And>fs. preserves Q (f fs)"
  shows "preserves Q (withFiles f)"
  using assms by (simp add: preserves_def withFiles_def)

lemma preserves_execSync:
  assumes "\<And>fs. Q fs \<Longrightarrow> Q (snd (execCommand X command fs))"
  shows "preserves Q (execSync X command)"
  unfolding preserves_def
proof (intro allI impI)
  fix s :: wstate assume q: "Q (files s)"
  obtain ok fs' where e: "execCommand X command (files s) = (ok, fs')"
    by (cases "execCommand X command (files s)")
  then have "Q fs'" using assms [OF q] by simp
  then show "Q (files (snd (execSync X command s)))"
    using e by (simp add: execSync_def)
qed

lemma neverExits_ret: "neverExits (ret x)"
  by (simp add: neverExits_def ret_def)

lemma neverExits_clackLog: "neverExits (clackLog out)"
  by (simp add: neverExits_def clackLog_def)

lemma neverExits_throwError: "neverExits (throwError e)"
  by (simp add: neverExits_def throwError_def)

lemma neverExits_execSync: "neverExits (execSync X command)"
  by (simp add: neverExits_def execSync_def split: prod.splits)

lemma neverExits_readFile: "neverExits (readFile p)"
  by (simp add: neverExits_def readFile_def split: option.splits node.splits)

lemma neverExits_writeFile: "neverExits (writeFile p c)"
  by (simp add: neverExits_def writeFile_def)

lemma neverExits_andThen:
  assumes "neverExits m" and "\<And>x. neverExits (f x)"
  shows "neverExits (andThen m f)"
  unfolding neverExits_def
proof (intro allI)
  fix s :: wstate and n
  obtain r s' where ms: "m s = (r, s')" by (cases "m s")
  show "fst (andThen m f s) \<noteq> Exits n"
  proof (cases r)
    case (Returns x)
    then show ?thesis using assms(2) [of x] ms by (simp add: andThen_def neverExits_def)
  next
    case (Throws e)
    then show ?thesis using ms by (simp add: andThen_def)
  next
    case (Exits k)
    then show ?thesis using assms(1) ms by (auto simp: neverExits_def dest: spec [of _ s])
  qed
qed

lemma neverExits_doAll:
  assumes "\<And>m. m \<in> set ms \<Longrightarrow> neverExits m"
  shows "neverExits (doAll ms)"
  using assms
proof (induction ms)
  case Nil
  show ?case by (simp add: neverExits_ret)
next
  case (Cons m ms)
  show ?case
    unfolding doAll.simps
    by (rule neverExits_andThen) (simp_all add: Cons)
qed

lemma neverExits_withFiles:
  assumes "\<And>fs. neverExits (f fs)"
  shows "neverExits (withFiles f)"
  using assms by (simp add: neverExits_def withFiles_def)

lemma alwaysReturns_neverExits: "alwaysReturns m \<Longrightarrow> neverExits m"
  by (simp add: alwaysReturns_def neverExits_def)

lemma alwaysReturns_ret: "alwaysReturns (ret ())"
  by (simp add: alwaysReturns_def ret_def)

lemma alwaysReturns_clackLog: "alwaysReturns (clackLog out)"
  by (simp add: alwaysReturns_def clackLog_def)

lemma alwaysReturns_andThen:
  assumes "alwaysReturns m" and "\<And>x. alwaysReturns (f x)"
  shows "alwaysReturns (andThen m f)"
  unfolding alwaysReturns_def
proof (intro allI)
  fix s :: wstate
  obtain r s' where ms: "m s = (r, s')" by (cases "m s")
  then have "r = Returns ()" using assms(1) by (auto simp: alwaysReturns_def dest: spec [of _ s])
  then show "fst (andThen m f s) = Returns ()"
    using assms(2) [of "()"] ms by (simp add: andThen_def alwaysReturns_def)
qed

lemma alwaysReturns_doAll:
  assumes "\<And>m. m \<in> set ms \<Longrightarrow> alwaysReturns m"
  shows "alwaysReturns (doAll ms)"
  using assms
proof (induction ms)
  case Nil
  show ?case by (simp add: alwaysReturns_ret)
next
  case (Cons m ms)
  show ?case
    unfolding doAll.simps
    by (rule alwaysReturns_andThen) (simp_all add: Cons)
qed

lemma alwaysReturns_withFiles:
  assumes "\<And>fs. alwaysReturns (f fs)"
  shows "alwaysReturns (withFiles f)"
  using assms by (simp add: alwaysReturns_def withFiles_def)

lemma alwaysReturns_tryCatch:
  assumes "neverExits m" and "\<And>e. alwaysReturns (h e)"
  shows "alwaysReturns (tryCatch m h)"
  unfolding alwaysReturns_def
proof (intro allI)
  fix s :: wstate
  obtain r s' where ms: "m s = (r, s')" by (cases "m s")
  show "fst (tryCatch m h s) = Returns ()"
  proof (cases r)
    case (Returns x)
    then show ?thesis using ms by (simp add: tryCatch_def)
  next
    case (Throws e)
    then show ?thesis using assms(2) [of e] ms by (simp add: tryCatch_def alwaysReturns_def)
  next
    case (Exits k)
    then show ?thesis using assms(1) ms by (auto simp: neverExits_def dest: spec [of _ s])
  qed
qed

lemma neverExits_tryCatch:
  assumes "neverExits m" and "\<And>e. neverExits (h e)"
  shows "neverExits (tryCatch m h)"
  unfolding neverExits_def
proof (intro allI)
  fix s :: wstate and n
  obtain r s' where ms: "m s = (r, s')" by (cases "m s")
  show "fst (tryCatch m h s) \<noteq> Exits n"
  proof (cases r)
    case (Returns x)
    then show ?thesis using ms by (simp add: tryCatch_def)
  next
    case (Throws e)
    then show ?thesis using assms(2) [of e] ms by (simp add: tryCatch_def neverExits_def)
  next
    case (Exits k)
    then show ?thesis using assms(1) ms by (auto simp: neverExits_def dest: spec [of _ s])
  qed
qed

lemmas preserves_intros =
  preserves_andThen preserves_clackLog preserves_withFiles preserves_tryCatch preserves_ret
  preserves_throwError

lemmas neverExits_intros =
  neverExits_andThen neverExits_clackLog neverExits_withFiles neverExits_tryCatch neverExits_ret
  neverExits_throwError neverExits_execSync neverExits_readFile neverExits_writeFile

lemmas alwaysReturns_intros =
  alwaysReturns_andThen alwaysReturns_clackLog alwaysReturns_withFiles alwaysReturns_ret

lemma preserves_readFile: "preserves Q (readFile p)"
  by (simp add: preserves_def readFile_def split: option.splits node.splits)

lemma preserves_writeFile:
  assumes "\<And>fs. Q fs \<Longrightarrow> Q (fs(p \<mapsto> File c))"
  shows "preserves Q (writeFile p c)"
  using assms by (simp add: preserves_def writeFile_def)

lemma preservesD:
  assumes "preserves Q m" and "Q (files s)" and "m s = (r, s')"
  shows "Q (files s')"
  using assms by (auto simp: preserves_def dest: spec [of _ s])

lemma alwaysReturnsD:
  assumes "alwaysReturns m"
  shows "\<exists>s'. m s = (Returns (), s')"
  using assms by (cases "m s") (auto simp: alwaysReturns_def dest: spec [of _ s])


section \<open>Properties of the token prompts\<close>

lemma hex_lower_not_ws: "isHexChar c \<Longrightarrow> \<not> isWhiteSpace (lowerChar c)"
proof -
  have "list_all (\<lambda>c. \<not> isWhiteSpace (lowerChar c)) ''abcdefABCDEF0123456789''"
    by code_simp
  then show "isHexChar c \<Longrightarrow> \<not> isWhiteSpace (lowerChar c)"
    unfolding isHexChar_def list_all_iff by blast
qed

lemma trim_Cons_nonws:
  "\<not> isWhiteSpace c \<Longrightarrow> trim (c # s) = c # rev (dropWhile isWhiteSpace (rev s))"
  by (simp add: trim_def dropWhile_append3)

lemma trim_no_ws: "\<forall>c\<in>set s. \<not> isWhiteSpace c \<Longrightarrow> trim s = s"
proof (cases s rule: rev_cases)
  case Nil
  then show ?thesis by (simp add: trim_def)
next
  case (snoc ys y)
  assume a: "\<forall>c\<in>set s. \<not> isWhiteSpace c"
  then have "dropWhile isWhiteSpace s = s" by (cases s) auto
  moreover have "dropWhile isWhiteSpace (rev s) = rev s" using a snoc by simp
  ultimately show ?thesis by (simp add: trim_def)
qed

lemma exit_not_post: "isPostToken v \<Longrightarrow> trim (toLowerCase v) \<noteq> ''exit''"
proof -
  assume "isPostToken v"
  then obtain r where v: "v = CHR ''p'' # r"
    by (auto simp: isPostToken_def startsWith_def prefix_def)
  have lp: "lowerChar CHR ''p'' = CHR ''p''"
    by code_simp
  have "\<not> isWhiteSpace CHR ''p''" by (simp add: isWhiteSpace_def)
  then show ?thesis
    by (simp add: v toLowerCase_def lp trim_Cons_nonws)
qed

lemma exit_not_hex: "isHexToken v \<Longrightarrow> trim (toLowerCase v) \<noteq> ''exit''"
proof -
  assume h: "isHexToken v"
  then have "\<forall>c\<in>set (toLowerCase v). \<not> isWhiteSpace c"
    by (auto simp: isHexToken_def toLowerCase_def list_all_iff hex_lower_not_ws)
  then have "trim (toLowerCase v) = toLowerCase v" by (rule trim_no_ws)
  moreover have "length (toLowerCase v) \<ge> 32" using h by (simp add: isHexToken_def toLowerCase_def)
  ultimately show ?thesis by auto
qed

lemma validateToken_accepted_iff:
  "validateToken m v = Accepted \<longleftrightarrow> v \<noteq> [] \<and> (isPostToken v \<or> isHexToken v)"
  using exit_not_post [of v] exit_not_hex [of v]
  by (auto simp: validateToken_def checkForExitCommand_def)

text \<open>
  C10. Each token validator accepts a value exactly when it is not empty and either
  starts with \<open>post_server_item_\<close> or \<open>post_client_item_\<close> or is made of 32 to 128
  hexadecimal characters; a value that is \<open>exit\<close> once lower-cased and trimmed ends
  the process with exit code 0 and is not validated.
\<close>

theorem token_validator_accepts_iff:
  "(validateServerToken v = Accepted \<longleftrightarrow>
      v \<noteq> [] \<and> (startsWith v ''post_server_item_'' \<or> startsWith v ''post_client_item_'' \<or>
        (32 \<le> length v \<and> length v \<le> 128 \<and> (\<forall>c\<in>set v. isHexChar c)))) \<and>
   (validateClientToken v = Accepted \<longleftrightarrow>
      v \<noteq> [] \<and> (startsWith v ''post_server_item_'' \<or> startsWith v ''post_client_item_'' \<or>
        (32 \<le> length v \<and> length v \<le> 128 \<and> (\<forall>c\<in>set v. isHexChar c)))) \<and>
   (trim (toLowerCase v) = ''exit'' \<longrightarrow>
      validateServerToken v = ProcessExit ''Wizard cancelled by user.'' 0 \<and>
      validateClientToken v = ProcessExit ''Wizard cancelled by user.'' 0)"
proof -
  have "trim (toLowerCase v) = ''exit'' \<longrightarrow>
        validateToken m v = ProcessExit ''Wizard cancelled by user.'' 0" for m
    by (simp add: validateToken_def checkForExitCommand_def)
  then show ?thesis
    unfolding validateServerToken_def validateClientToken_def validateToken_accepted_iff
    by (auto simp: isPostToken_def isHexToken_def list_all_iff)
qed

theorem token_validator_accepts_iff_witness:
  "validateServerToken ''post_server_item_1'' = Accepted \<and>
   validateClientToken ''0123456789abcdef0123456789ABCDEF'' = Accepted \<and>
   validateClientToken ''0123456789abcdef0123456789ABCDE'' \<noteq> Accepted \<and>
   validateServerToken ''  Exit '' = ProcessExit ''Wizard cancelled by user.'' 0"
proof -
  have "trim (toLowerCase ''  Exit '') = ''exit''" by code_simp
  then show ?thesis
    using token_validator_accepts_iff [of "''post_server_item_1''"]
      token_validator_accepts_iff [of "''0123456789abcdef0123456789ABCDEF''"]
      token_validator_accepts_iff [of "''0123456789abcdef0123456789ABCDE''"]
      token_validator_accepts_iff [of "''  Exit ''"]
    by (simp add: startsWith_def isHexChar_def)
qed


section \<open>Where the instrumentation hook is created\<close>

text \<open>
  C5. When none of the four probed instrumentation files exists: with a root \<open>app\<close> or
  \<open>pages\<close> directory the hook is created at the project root, as \<open>instrumentation.ts\<close>
  when TypeScript is detected (and as \<open>instrumentation.js\<close> otherwise); with no root routing
  directory but a \<open>src\<close> directory it is created under \<open>src\<close>; otherwise at the root.
\<close>

theorem instrumentation_hook_created:
  assumes "\<not> existsSync (files s) [''instrumentation.ts'']"
    and "\<not> existsSync (files s) [''instrumentation.js'']"
    and "\<not> existsSync (files s) [''src'', ''instrumentation.ts'']"
    and "\<not> existsSync (files s) [''src'', ''instrumentation.js'']"
  shows
    "((hasDirectoryPathFromRoot (files s) [''app''] \<or> hasDirectoryPathFromRoot (files s) [''pages''])
        \<and> hasTypescript info \<longrightarrow>
      setupInstrumentationHook X info s =
        (Returns (),
         s\<lparr>files := (files s)([''instrumentation.ts''] \<mapsto> File (getInstrumentationHookContent X Root)),
           console := console s @ [Success ''Created instrumentation.ts'']\<rparr>)) \<and>
     ((hasDirectoryPathFromRoot (files s) [''app''] \<or> hasDirectoryPathFromRoot (files s) [''pages''])
        \<and> \<not> hasTypescript info \<longrightarrow>
      setupInstrumentationHook X info s =
        (Returns (),
         s\<lparr>files := (files s)([''instrumentation.js''] \<mapsto> File (getInstrumentationHookContent X Root)),
           console := console s @ [Success ''Created instrumentation.js'']\<rparr>)) \<and>
     (\<not> hasDirectoryPathFromRoot (files s) [''app''] \<and>
      \<not> hasDirectoryPathFromRoot (files s) [''pages''] \<and>
      hasDirectoryPathFromRoot (files s) [''src''] \<longrightarrow>
      setupInstrumentationHook X info s =
        (Returns (),
         s\<lparr>files := (files s)([''src'', ''instrumentation.'' @ extOf info] \<mapsto>
                     File (getInstrumentationHookContent X Src)),
           console := console s @ [Success (''Created instrumentation.'' @ extOf info)]\<rparr>)) \<and>
     (\<not> hasDirectoryPathFromRoot (files s) [''app''] \<and>
      \<not> hasDirectoryPathFromRoot (files s) [''pages''] \<and>
      \<not> hasDirectoryPathFromRoot (files s) [''src''] \<longrightarrow>
      setupInstrumentationHook X info s =
        (Returns (),
         s\<lparr>files := (files s)([''instrumentation.'' @ extOf info] \<mapsto>
                     File (getInstrumentationHookContent X Root)),
           console := console s @ [Success (''Created instrumentation.'' @ extOf info)]\<rparr>))"
  using assms
  by (auto simp: setupInstrumentationHook_def action_defs Let_def existsSync_def extOf_def
      hasDirectoryPathFromRoot_def isDirectory_def writeFile_def parentIsDirectory_def)

theorem instrumentation_hook_created_witness:
  "setupInstrumentationHook demoCollaborators demoInfo (project [([''app''], Dir)]) =
     (Returns (),
      \<lparr> files = [[''app''] \<mapsto> Dir, [''instrumentation.ts''] \<mapsto> File ''hook''],
        console = [Success ''Created instrumentation.ts''] \<rparr>) \<and>
   setupInstrumentationHook demoCollaborators (demoInfo\<lparr>hasTypescript := False\<rparr>)
       (project [([''pages''], Dir)]) =
     (Returns (),
      \<lparr> files = [[''pages''] \<mapsto> Dir, [''instrumentation.js''] \<mapsto> File ''hook''],
        console = [Success ''Created instrumentation.js''] \<rparr>) \<and>
   setupInstrumentationHook demoCollaborators demoInfo (project [([''src''], Dir)]) =
     (Returns (),
      \<lparr> files = [[''src''] \<mapsto> Dir, [''src'', ''instrumentation.ts''] \<mapsto> File ''hook''],
        console = [Success ''Created instrumentation.ts''] \<rparr>) \<and>
   setupInstrumentationHook demoCollaborators demoInfo (project []) =
     (Returns (),
      \<lparr> files = [[''instrumentation.ts''] \<mapsto> File ''hook''],
        console = [Success ''Created instrumentation.ts''] \<rparr>)"
  using instrumentation_hook_created
          [of "project [([''app''], Dir)]" demoInfo demoCollaborators]
        instrumentation_hook_created
          [of "project [([''pages''], Dir)]" "demoInfo\<lparr>hasTypescript := False\<rparr>"
              demoCollaborators]
        instrumentation_hook_created
          [of "project [([''src''], Dir)]" demoInfo demoCollaborators]
        instrumentation_hook_created [of "project []" demoInfo demoCollaborators]
  by (simp add: project_def existsSync_def hasDirectoryPathFromRoot_def isDirectory_def
      demoInfo_def demoCollaborators_def extOf_def)


section \<open>The build configuration is replaced, never only warned about\<close>

lemma templates_have_setting:
  "includesStr (getNextjsConfigCjsTemplate True) ''productionBrowserSourceMaps''"
  "includesStr (getNextjsConfigMjsTemplate True) ''productionBrowserSourceMaps''"
  "includesStr (getNextjsConfigTsTemplate True) ''productionBrowserSourceMaps''"
  by code_simp+

lemma setupNextjsConfig_replaces_config:
  assumes en: "enableSourcemaps cfg"
    and p: "p = (if existsSync (files s) [''next.config.js''] then [''next.config.js'']
                 else if existsSync (files s) [''next.config.mjs''] then [''next.config.mjs'']
                 else [''next.config.ts''])"
    and c: "files s p = Some (File c)"
    and lacks: "\<not> includesStr c ''productionBrowserSourceMaps''"
  shows "\<exists>t. setupNextjsConfig X cfg info s =
           (Returns (),
            s\<lparr>files := (files s)(p \<mapsto> File t),
              console := console s @
                [Success (''Updated '' @ basename p @ '' with Rollbar configuration'')]\<rparr>) \<and>
           includesStr t ''productionBrowserSourceMaps'' \<and> t \<noteq> c"
proof -
  define t where "t =
    (if existsSync (files s) [''next.config.ts'']
       then getNextjsConfigTsTemplate (enableSourcemaps cfg)
     else if existsSync (files s) [''next.config.mjs'']
       then getNextjsConfigMjsTemplate (enableSourcemaps cfg)
     else getNextjsConfigCjsTemplate (enableSourcemaps cfg))"
  have t_has: "includesStr t ''productionBrowserSourceMaps''"
    using en by (simp add: t_def templates_have_setting)
  have ex: "existsSync (files s) [''next.config.js''] \<or> existsSync (files s) [''next.config.mjs'']
            \<or> existsSync (files s) [''next.config.ts'']"
    using p c by (auto simp: existsSync_def split: if_splits)
  have rd: "readFile p s = (Returns c, s)"
    using c by (simp add: readFile_def)
  have bl: "butlast p = []"
    using p by (simp split: if_splits)
  have wr: "writeFile p t s = (Returns (), s\<lparr>files := (files s)(p \<mapsto> File t)\<rparr>)"
    using c bl by (simp add: writeFile_def parentIsDirectory_def)
  have "setupNextjsConfig X cfg info s =
          (Returns (),
           s\<lparr>files := (files s)(p \<mapsto> File t),
             console := console s @
               [Success (''Updated '' @ basename p @ '' with Rollbar configuration'')]\<rparr>)"
    using en ex lacks rd wr
    unfolding setupNextjsConfig_def withFiles_def Let_def p [symmetric] t_def [symmetric]
    by (simp add: andThen_def ret_def clackLog_def)
  moreover have "t \<noteq> c" using t_has lacks by auto
  ultimately show ?thesis using t_has by blast
qed

text \<open>
  C1 (the code does not do this). A hand-written \<open>next.config.js\<close> with five meaningful
  lines and no \<open>productionBrowserSourceMaps\<close>: the step prints no warning, it replaces
  the file with the CommonJS template and reports \<open>Updated\<close>.
\<close>

theorem custom_next_config_is_overwritten:
  "2 < length (meaningfulLines customNextConfig) \<and>
   \<not> includesStr customNextConfig ''productionBrowserSourceMaps'' \<and>
   setupNextjsConfig demoCollaborators demoConfig demoInfo
       (project [([''next.config.js''], File customNextConfig)]) =
     (Returns (),
      \<lparr> files = [[''next.config.js''] \<mapsto> File (getNextjsConfigCjsTemplate True)],
        console = [Success ''Updated next.config.js with Rollbar configuration''] \<rparr>) \<and>
   getNextjsConfigCjsTemplate True \<noteq> customNextConfig"
proof -
  let ?s = "project [([''next.config.js''], File customNextConfig)]"
  have len: "2 < length (meaningfulLines customNextConfig)" by code_simp
  have lacks: "\<not> includesStr customNextConfig ''productionBrowserSourceMaps''" by code_simp
  have en: "enableSourcemaps demoConfig" by (simp add: demoConfig_def)
  have p: "[''next.config.js''] =
      (if existsSync (files ?s) [''next.config.js''] then [''next.config.js'']
       else if existsSync (files ?s) [''next.config.mjs''] then [''next.config.mjs'']
       else [''next.config.ts''])"
    by (simp add: project_def existsSync_def)
  have c: "files ?s [''next.config.js''] = Some (File customNextConfig)"
    by (simp add: project_def)
  have nts: "\<not> existsSync (files ?s) [''next.config.ts'']"
       "\<not> existsSync (files ?s) [''next.config.mjs'']"
    by (simp_all add: project_def existsSync_def)
  obtain t where t:
    "setupNextjsConfig demoCollaborators demoConfig demoInfo ?s =
       (Returns (),
        ?s\<lparr>files := (files ?s)([''next.config.js''] \<mapsto> File t),
          console := console ?s @
            [Success (''Updated '' @ basename [''next.config.js''] @ '' with Rollbar configuration'')]\<rparr>)"
    "t \<noteq> customNextConfig"
    using setupNextjsConfig_replaces_config [OF en p c lacks] by blast
  have "t = getNextjsConfigCjsTemplate True"
    using t(1) en nts c
    unfolding setupNextjsConfig_def withFiles_def Let_def
    by (auto simp: andThen_def ret_def clackLog_def readFile_def writeFile_def
        parentIsDirectory_def existsSync_def project_def fun_eq_iff split: if_splits)
  then show ?thesis
    using t len lacks by (simp add: project_def basename_def)
qed


section \<open>Error pages are created only where none exists\<close>

lemma firstExisting_None:
  "firstExisting fs d names = None \<longleftrightarrow> (\<forall>n\<in>set names. \<not> existsSync fs (d @ [n]))"
  by (auto simp: firstExisting_def find_None_iff)

lemma pagesDir_is_directory:
  "getMaybePagesDirLocation fs = Some d \<Longrightarrow> fs d = Some Dir"
  by (auto simp: getMaybePagesDirLocation_def isDirectory_def split: if_splits)

lemma appDir_is_directory:
  "getMaybeAppDirLocation fs = Some d \<Longrightarrow> fs d = Some Dir"
  by (auto simp: getMaybeAppDirLocation_def isDirectory_def split: if_splits)

lemma setupPagesErrorPage_skip:
  assumes "getMaybePagesDirLocation (files s) = Some d"
    and "\<exists>n\<in>set underscoreErrorVariants. existsSync (files s) (d @ [n])"
  shows "setupPagesErrorPage X info s = (Returns (), s)"
proof -
  obtain v where "firstExisting (files s) d underscoreErrorVariants = Some v"
    using assms(2) firstExisting_None [of "files s" d underscoreErrorVariants] by auto
  then show ?thesis
    using assms(1) by (simp add: setupPagesErrorPage_def withFiles_def ret_def)
qed

lemma setupPagesErrorPage_create:
  assumes loc: "getMaybePagesDirLocation (files s) = Some d"
    and none: "\<forall>n\<in>set underscoreErrorVariants. \<not> existsSync (files s) (d @ [n])"
  shows "setupPagesErrorPage X info s =
    (Returns (),
     s\<lparr>files := (files s)(d @ [''_error.'' @ (if hasTypescript info then ''tsx'' else ''jsx'')] \<mapsto>
                 File (getRollbarDefaultUnderscoreErrorPage X d)),
       console := console s @
         [Success (''Created '' @
            displayPath (d @ [''_error.'' @ (if hasTypescript info then ''tsx'' else ''jsx'')]) @
            ''.'')]\<rparr>)"
proof -
  let ?n = "''_error.'' @ (if hasTypescript info then ''tsx'' else ''jsx'')"
  have fe: "firstExisting (files s) d underscoreErrorVariants = None"
    using none by (simp add: firstExisting_None)
  have "?n \<in> set underscoreErrorVariants" by (simp add: underscoreErrorVariants_def)
  then have absent: "files s (d @ [?n]) = None"
    using none by (auto simp: existsSync_def)
  have wr: "writeFile (d @ [?n]) c s = (Returns (), s\<lparr>files := (files s)(d @ [?n] \<mapsto> File c)\<rparr>)" for c
    using absent pagesDir_is_directory [OF loc] by (rule writeFile_absent_in_dir)
  show ?thesis
    using loc fe wr
    by (simp add: setupPagesErrorPage_def withFiles_def Let_def andThen_def ret_def clackLog_def)
qed

lemma setupAppErrorPage_skip:
  assumes "getMaybeAppDirLocation (files s) = Some d"
    and "\<exists>n\<in>set globalErrorVariants. existsSync (files s) (d @ [n])"
  shows "setupAppErrorPage X info s = (Returns (), s)"
proof -
  obtain v where "firstExisting (files s) d globalErrorVariants = Some v"
    using assms(2) firstExisting_None [of "files s" d globalErrorVariants] by auto
  then show ?thesis
    using assms(1) by (simp add: setupAppErrorPage_def withFiles_def ret_def)
qed

lemma setupAppErrorPage_create:
  assumes loc: "getMaybeAppDirLocation (files s) = Some d"
    and none: "\<forall>n\<in>set globalErrorVariants. \<not> existsSync (files s) (d @ [n])"
  shows "setupAppErrorPage X info s =
    (Returns (),
     s\<lparr>files := (files s)(d @ [''global-error.'' @ (if hasTypescript info then ''tsx'' else ''jsx'')] \<mapsto>
                 File (getRollbarDefaultGlobalErrorPage X (hasTypescript info) d)),
       console := console s @
         [Success (''Created '' @
            displayPath (d @ [''global-error.'' @ (if hasTypescript info then ''tsx'' else ''jsx'')]) @
            ''.'')]\<rparr>)"
proof -
  let ?n = "''global-error.'' @ (if hasTypescript info then ''tsx'' else ''jsx'')"
  have fe: "firstExisting (files s) d globalErrorVariants = None"
    using none by (simp add: firstExisting_None)
  have "?n \<in> set globalErrorVariants" by (simp add: globalErrorVariants_def)
  then have absent: "files s (d @ [?n]) = None"
    using none by (auto simp: existsSync_def)
  have wr: "writeFile (d @ [?n]) c s = (Returns (), s\<lparr>files := (files s)(d @ [?n] \<mapsto> File c)\<rparr>)" for c
    using absent appDir_is_directory [OF loc] by (rule writeFile_absent_in_dir)
  show ?thesis
    using loc fe wr
    by (simp add: setupAppErrorPage_def withFiles_def Let_def andThen_def ret_def clackLog_def)
qed

lemma setupErrorPages_router:
  "setupErrorPages X info PagesRouter = setupPagesErrorPage X info"
  "setupErrorPages X info AppRouter = setupAppErrorPage X info"
  "setupErrorPages X info BothRouters =
     andThen (setupPagesErrorPage X info) (\<lambda>_. setupAppErrorPage X info)"
  by (auto simp: setupErrorPages_def andThen_def ret_def fun_eq_iff
      split: prod.splits result.splits)

text \<open>
  C8. In the pages directory the step probes \<open>_error.tsx\<close>, \<open>_error.ts\<close>, \<open>_error.jsx\<close>
  and \<open>_error.js\<close>, in the app directory \<open>global-error.tsx\<close>, \<open>global-error.ts\<close>,
  \<open>global-error.jsx\<close> and \<open>global-error.js\<close>. If one of them exists the step changes
  nothing and prints nothing; if none exists it creates the default page, with the
  extension \<open>tsx\<close> for a TypeScript project and \<open>jsx\<close> otherwise. With both routers the
  pages block runs first, then the app block.
\<close>

theorem error_page_scaffold:
  "(getMaybePagesDirLocation (files s) = Some d \<and>
    (\<exists>n\<in>set [''_error.tsx'', ''_error.ts'', ''_error.jsx'', ''_error.js''].
        existsSync (files s) (d @ [n])) \<longrightarrow>
      setupErrorPages X info PagesRouter s = (Returns (), s)) \<and>
   (getMaybePagesDirLocation (files s) = Some d \<and>
    (\<forall>n\<in>set [''_error.tsx'', ''_error.ts'', ''_error.jsx'', ''_error.js''].
        \<not> existsSync (files s) (d @ [n])) \<longrightarrow>
      setupErrorPages X info PagesRouter s =
        (Returns (),
         s\<lparr>files := (files s)(d @ [''_error.'' @ (if hasTypescript info then ''tsx'' else ''jsx'')] \<mapsto>
                     File (getRollbarDefaultUnderscoreErrorPage X d)),
           console := console s @
             [Success (''Created '' @
                displayPath (d @ [''_error.'' @ (if hasTypescript info then ''tsx'' else ''jsx'')]) @
                ''.'')]\<rparr>)) \<and>
   (getMaybeAppDirLocation (files s) = Some a \<and>
    (\<exists>n\<in>set [''global-error.tsx'', ''global-error.ts'', ''global-error.jsx'', ''global-error.js''].
        existsSync (files s) (a @ [n])) \<longrightarrow>
      setupErrorPages X info AppRouter s = (Returns (), s)) \<and>
   (getMaybeAppDirLocation (files s) = Some a \<and>
    (\<forall>n\<in>set [''global-error.tsx'', ''global-error.ts'', ''global-error.jsx'', ''global-error.js''].
        \<not> existsSync (files s) (a @ [n])) \<longrightarrow>
      setupErrorPages X info AppRouter s =
        (Returns (),
         s\<lparr>files := (files s)(a @ [''global-error.'' @ (if hasTypescript info then ''tsx'' else ''jsx'')] \<mapsto>
                     File (getRollbarDefaultGlobalErrorPage X (hasTypescript info) a)),
           console := console s @
             [Success (''Created '' @
                displayPath (a @ [''global-error.'' @ (if hasTypescript info then ''tsx'' else ''jsx'')]) @
                ''.'')]\<rparr>)) \<and>
   setupErrorPages X info BothRouters s =
     andThen (setupErrorPages X info PagesRouter) (\<lambda>_. setupErrorPages X info AppRouter) s"
proof -
  have b: "setupErrorPages X info BothRouters s =
     andThen (setupErrorPages X info PagesRouter) (\<lambda>_. setupErrorPages X info AppRouter) s"
    by (simp add: setupErrorPages_router)
  show ?thesis
    using setupPagesErrorPage_skip [where s = s and d = d and X = X and info = info]
      setupPagesErrorPage_create [where s = s and d = d and X = X and info = info]
      setupAppErrorPage_skip [where s = s and d = a and X = X and info = info]
      setupAppErrorPage_create [where s = s and d = a and X = X and info = info] b
    unfolding setupErrorPages_router(1,2) underscoreErrorVariants_def globalErrorVariants_def
    by blast
qed

theorem error_page_scaffold_witness:
  "setupErrorPages demoCollaborators demoInfo PagesRouter
       (project [([''pages''], Dir), ([''pages'', ''_error.js''], File ''mine'')]) =
     (Returns (), project [([''pages''], Dir), ([''pages'', ''_error.js''], File ''mine'')]) \<and>
   setupErrorPages demoCollaborators demoInfo PagesRouter (project [([''pages''], Dir)]) =
     (Returns (),
      \<lparr> files = [[''pages''] \<mapsto> Dir, [''pages'', ''_error.tsx''] \<mapsto> File ''error page''],
        console = [Success ''Created pages/_error.tsx.''] \<rparr>) \<and>
   setupErrorPages demoCollaborators demoInfo AppRouter
       (project [([''src'', ''app''], Dir), ([''src'', ''app'', ''global-error.ts''], Dir)]) =
     (Returns (),
      project [([''src'', ''app''], Dir), ([''src'', ''app'', ''global-error.ts''], Dir)]) \<and>
   setupErrorPages demoCollaborators (demoInfo\<lparr>hasTypescript := False\<rparr>) AppRouter
       (project [([''src'', ''app''], Dir)]) =
     (Returns (),
      \<lparr> files = [[''src'', ''app''] \<mapsto> Dir,
                 [''src'', ''app'', ''global-error.jsx''] \<mapsto> File ''global error page''],
        console = [Success ''Created src/app/global-error.jsx.''] \<rparr>)"
  using error_page_scaffold
          [where s = "project [([''pages''], Dir), ([''pages'', ''_error.js''], File ''mine'')]"
             and d = "[''pages'']" and X = demoCollaborators and info = demoInfo
             and a = "[''app'']"]
        error_page_scaffold
          [where s = "project [([''pages''], Dir)]"
             and d = "[''pages'']" and X = demoCollaborators and info = demoInfo
             and a = "[''app'']"]
        error_page_scaffold
          [where s = "project [([''src'', ''app''], Dir),
                               ([''src'', ''app'', ''global-error.ts''], Dir)]"
             and d = "[''pages'']" and X = demoCollaborators and info = demoInfo
             and a = "[''src'', ''app'']"]
        error_page_scaffold
          [where s = "project [([''src'', ''app''], Dir)]"
             and d = "[''pages'']" and X = demoCollaborators
             and info = "demoInfo\<lparr>hasTypescript := False\<rparr>"
             and a = "[''src'', ''app'']"]
  by (simp add: project_def existsSync_def isDirectory_def getMaybePagesDirLocation_def
      getMaybeAppDirLocation_def demoInfo_def demoCollaborators_def displayPath_def joinWith_def)


section \<open>The ignore file\<close>

lemma readEnv_cases:
  assumes "files s envLocal \<noteq> Some Dir"
  shows "\<exists>c. withFiles (\<lambda>fs. if existsSync fs envLocal then readFile envLocal else ret []) s
           = (Returns c, s)"
  using assms
  by (cases "files s envLocal")
     (auto simp: withFiles_def existsSync_def readFile_def ret_def split: node.splits)

lemma writeEnv_ok:
  assumes "files s envLocal \<noteq> Some Dir"
  shows "writeFile envLocal c s = (Returns (), s\<lparr>files := (files s)(envLocal \<mapsto> File c)\<rparr>)"
  using assms by (simp add: writeFile_def parentIsDirectory_def envLocal_def)

lemma updateGitignore_present:
  assumes "files s gitignore = Some (File g)"
  shows "updateGitignore s =
    (Returns (),
     if includesStr g ''.env.local'' then s
     else s\<lparr>files := (files s)(gitignore \<mapsto>
                 File (g @ nl @ ''# Environment variables'' @ nl @ ''.env.local'' @ nl))\<rparr>)"
  using assms
  by (simp add: updateGitignore_def withFiles_def existsSync_def readFile_def andThen_def
      ret_def writeFile_def parentIsDirectory_def gitignore_def)

lemma updateGitignore_absent:
  assumes "files s gitignore = None"
  shows "updateGitignore s = (Returns (), s)"
  using assms by (simp add: updateGitignore_def withFiles_def existsSync_def ret_def)

lemma setupEnvironmentVariables_unfold:
  assumes "files s envLocal \<noteq> Some Dir"
  shows "setupEnvironmentVariables cfg s =
           updateGitignore
             (s\<lparr>files := (files s)(envLocal \<mapsto>
                  File (withCodeVersion cfg (withTokens cfg
                    (case files s envLocal of Some (File c) \<Rightarrow> c | _ \<Rightarrow> [])))),
                console := console s @ [Success ''Updated .env.local with Rollbar configuration'']\<rparr>)"
proof -
  have rd: "withFiles (\<lambda>fs. if existsSync fs envLocal then readFile envLocal else ret []) s =
      (Returns (case files s envLocal of Some (File c) \<Rightarrow> c | _ \<Rightarrow> []), s)"
    using assms
    by (cases "files s envLocal")
       (auto simp: withFiles_def existsSync_def readFile_def ret_def split: node.splits)
  show ?thesis
    using writeEnv_ok [OF assms]
    by (simp add: setupEnvironmentVariables_def rd andThen_def clackLog_def)
qed

lemma splitAcc_append:
  "splitAcc acc (a @ nl @ b) = splitAcc acc a @ splitAcc [] b"
  by (induction a arbitrary: acc) (simp_all add: nl_def)

lemma splitLines_append:
  "splitLines (a @ nl @ b) = splitLines a @ splitLines b"
  by (simp add: splitLines_def splitAcc_append)

lemma splitLines_entry:
  "splitLines (g @ nl @ ''# Environment variables'' @ nl @ ''.env.local'' @ nl) =
     splitLines g @ [''# Environment variables'', ''.env.local'', []]"
proof -
  have "splitLines (g @ nl @ ''# Environment variables'' @ nl @ ''.env.local'' @ nl @ []) =
        splitLines g @ splitLines ''# Environment variables'' @ splitLines ''.env.local'' @
        splitLines []"
    by (simp only: splitLines_append)
  then show ?thesis by (simp add: splitLines_def)
qed

text \<open>
  C9, as amended. Let \<open>.env.local\<close> not be a directory, so that the environment step
  returns. If \<open>.gitignore\<close> is a file whose content does not contain the text
  \<open>.env.local\<close>, then after the step its lines are the earlier lines followed by
  \<open># Environment variables\<close>, \<open>.env.local\<close> and an empty last line: the entry
  \<open>.env.local\<close> is a line of its own, after every earlier line, and the earlier content is
  kept in front. If the content contains the text \<open>.env.local\<close> anywhere, \<open>.gitignore\<close> is
  left as it is. If there is no \<open>.gitignore\<close>, the step creates none.
\<close>

theorem gitignore_entry_when_present:
  "(files s gitignore = Some (File g) \<and> \<not> includesStr g ''.env.local'' \<and>
    files s envLocal \<noteq> Some Dir \<longrightarrow>
      (\<exists>g'. fst (setupEnvironmentVariables cfg s) = Returns () \<and>
            files (snd (setupEnvironmentVariables cfg s)) gitignore = Some (File g') \<and>
            prefix g g' \<and>
            splitLines g' = splitLines g @ [''# Environment variables'', ''.env.local'', []] \<and>
            ''.env.local'' \<in> set (splitLines g'))) \<and>
   (files s gitignore = Some (File g) \<and> includesStr g ''.env.local'' \<and>
    files s envLocal \<noteq> Some Dir \<longrightarrow>
      fst (setupEnvironmentVariables cfg s) = Returns () \<and>
      files (snd (setupEnvironmentVariables cfg s)) gitignore = Some (File g)) \<and>
   (files s gitignore = None \<and> files s envLocal \<noteq> Some Dir \<longrightarrow>
      fst (setupEnvironmentVariables cfg s) = Returns () \<and>
      files (snd (setupEnvironmentVariables cfg s)) gitignore = None)"
proof -
  let ?c = "withCodeVersion cfg (withTokens cfg
              (case files s envLocal of Some (File c) \<Rightarrow> c | _ \<Rightarrow> []))"
  let ?s1 = "s\<lparr>files := (files s)(envLocal \<mapsto> File ?c),
           console := console s @ [Success ''Updated .env.local with Rollbar configuration'']\<rparr>"
  let ?g' = "g @ nl @ ''# Environment variables'' @ nl @ ''.env.local'' @ nl"
  have appended: "\<exists>g'. fst (setupEnvironmentVariables cfg s) = Returns () \<and>
            files (snd (setupEnvironmentVariables cfg s)) gitignore = Some (File g') \<and>
            prefix g g' \<and>
            splitLines g' = splitLines g @ [''# Environment variables'', ''.env.local'', []] \<and>
            ''.env.local'' \<in> set (splitLines g')"
    if a: "files s gitignore = Some (File g)" and n: "\<not> includesStr g ''.env.local''"
      and e: "files s envLocal \<noteq> Some Dir"
  proof -
    have c: "setupEnvironmentVariables cfg s = updateGitignore ?s1"
      using setupEnvironmentVariables_unfold [OF e] .
    have g1: "files ?s1 gitignore = Some (File g)"
      using a by (simp add: envLocal_def gitignore_def)
    have r: "fst (setupEnvironmentVariables cfg s) = Returns ()"
      and f: "files (snd (setupEnvironmentVariables cfg s)) gitignore = Some (File ?g')"
      using updateGitignore_present [OF g1] n unfolding c by simp_all
    have l: "splitLines ?g' = splitLines g @ [''# Environment variables'', ''.env.local'', []]"
      by (rule splitLines_entry)
    have m: "''.env.local'' \<in> set (splitLines ?g')"
      unfolding l by simp
    have p: "prefix g ?g'" by simp
    show ?thesis using r f l m p by blast
  qed
  have kept: "fst (setupEnvironmentVariables cfg s) = Returns () \<and>
      files (snd (setupEnvironmentVariables cfg s)) gitignore = Some (File g)"
    if a: "files s gitignore = Some (File g)" and n: "includesStr g ''.env.local''"
      and e: "files s envLocal \<noteq> Some Dir"
  proof -
    have c: "setupEnvironmentVariables cfg s = updateGitignore ?s1"
      using setupEnvironmentVariables_unfold [OF e] .
    have g1: "files ?s1 gitignore = Some (File g)"
      using a by (simp add: envLocal_def gitignore_def)
    show ?thesis
      using updateGitignore_present [OF g1] n g1 unfolding c by simp
  qed
  have absent: "fst (setupEnvironmentVariables cfg s) = Returns () \<and>
      files (snd (setupEnvironmentVariables cfg s)) gitignore = None"
    if a: "files s gitignore = None" and e: "files s envLocal \<noteq> Some Dir"
  proof -
    have c: "setupEnvironmentVariables cfg s = updateGitignore ?s1"
      using setupEnvironmentVariables_unfold [OF e] .
    have g1: "files ?s1 gitignore = None"
      using a by (simp add: envLocal_def gitignore_def)
    show ?thesis
      using updateGitignore_absent [OF g1] g1 unfolding c by simp
  qed
  show ?thesis using appended kept absent by blast
qed

theorem gitignore_entry_when_present_witness:
  "(\<exists>g'. fst (setupEnvironmentVariables demoConfig
                 (project [(gitignore, File ''node_modules'')])) = Returns () \<and>
         files (snd (setupEnvironmentVariables demoConfig
                 (project [(gitignore, File ''node_modules'')]))) gitignore = Some (File g') \<and>
         prefix ''node_modules'' g' \<and>
         splitLines g' = [''node_modules'', ''# Environment variables'', ''.env.local'', []] \<and>
         ''.env.local'' \<in> set (splitLines g')) \<and>
   files (snd (setupEnvironmentVariables demoConfig
                 (project [(gitignore, File ''.env.local.example'')]))) gitignore =
     Some (File ''.env.local.example'') \<and>
   files (snd (setupEnvironmentVariables demoConfig (project []))) gitignore = None"
proof -
  have n: "\<not> includesStr ''node_modules'' ''.env.local''" by code_simp
  have y: "includesStr ''.env.local.example'' ''.env.local''" by code_simp
  have l: "splitLines ''node_modules'' = [''node_modules'']" by code_simp
  show ?thesis
    using gitignore_entry_when_present
            [where s = "project [(gitignore, File ''node_modules'')]" and g = "''node_modules''"
               and cfg = demoConfig]
          gitignore_entry_when_present
            [where s = "project [(gitignore, File ''.env.local.example'')]"
               and g = "''.env.local.example''" and cfg = demoConfig]
          gitignore_entry_when_present [where s = "project []" and cfg = demoConfig]
    by (simp add: project_def gitignore_def envLocal_def n y l)
qed

text \<open>
  C9, as stated, fails on two kinds of project. With no \<open>.gitignore\<close> the environment
  step returns and there is still no \<open>.gitignore\<close>. With a \<open>.gitignore\<close> that contains the
  text \<open>.env.local\<close> without excluding the file (the single line \<open>.env.local.example\<close>, or
  the negated pattern \<open>!.env.local\<close>), the step returns and leaves \<open>.gitignore\<close> as it is: it
  has no line \<open>.env.local\<close>.
\<close>

theorem no_gitignore_counterexample:
  "fst (setupEnvironmentVariables demoConfig (project [])) = Returns () \<and>
   \<not> existsSync (files (snd (setupEnvironmentVariables demoConfig (project [])))) gitignore \<and>
   existsSync (files (snd (setupEnvironmentVariables demoConfig (project [])))) envLocal \<and>
   fst (setupEnvironmentVariables demoConfig
          (project [(gitignore, File ''.env.local.example'')])) = Returns () \<and>
   files (snd (setupEnvironmentVariables demoConfig
          (project [(gitignore, File ''.env.local.example'')]))) gitignore =
     Some (File ''.env.local.example'') \<and>
   splitLines ''.env.local.example'' = [''.env.local.example''] \<and>
   fst (setupEnvironmentVariables demoConfig
          (project [(gitignore, File ''!.env.local'')])) = Returns () \<and>
   files (snd (setupEnvironmentVariables demoConfig
          (project [(gitignore, File ''!.env.local'')]))) gitignore =
     Some (File ''!.env.local'') \<and>
   splitLines ''!.env.local'' = [''!.env.local'']"
proof -
  have a: "files (project []) envLocal \<noteq> Some Dir" by (simp add: project_def)
  have b: "files (project [(gitignore, File ''.env.local.example'')]) envLocal \<noteq> Some Dir"
    by (simp add: project_def gitignore_def envLocal_def)
  have c: "files (project [(gitignore, File ''!.env.local'')]) envLocal \<noteq> Some Dir"
    by (simp add: project_def gitignore_def envLocal_def)
  have y1: "includesStr ''.env.local.example'' ''.env.local''" by code_simp
  have y2: "includesStr ''!.env.local'' ''.env.local''" by code_simp
  have l1: "splitLines ''.env.local.example'' = [''.env.local.example'']" by code_simp
  have l2: "splitLines ''!.env.local'' = [''!.env.local'']" by code_simp
  have p1: "fst (setupEnvironmentVariables demoConfig (project [])) = Returns () \<and>
   \<not> existsSync (files (snd (setupEnvironmentVariables demoConfig (project [])))) gitignore \<and>
   existsSync (files (snd (setupEnvironmentVariables demoConfig (project [])))) envLocal"
    using setupEnvironmentVariables_unfold [OF a, of demoConfig]
    by (simp add: updateGitignore_def withFiles_def existsSync_def ret_def project_def
        gitignore_def envLocal_def)
  have p2: "fst (setupEnvironmentVariables demoConfig
          (project [(gitignore, File ''.env.local.example'')])) = Returns () \<and>
   files (snd (setupEnvironmentVariables demoConfig
          (project [(gitignore, File ''.env.local.example'')]))) gitignore =
     Some (File ''.env.local.example'')"
    using setupEnvironmentVariables_unfold [OF b, of demoConfig] y1
    by (simp add: updateGitignore_def withFiles_def existsSync_def ret_def project_def
        gitignore_def envLocal_def readFile_def andThen_def)
  have p3: "fst (setupEnvironmentVariables demoConfig
          (project [(gitignore, File ''!.env.local'')])) = Returns () \<and>
   files (snd (setupEnvironmentVariables demoConfig
          (project [(gitignore, File ''!.env.local'')]))) gitignore =
     Some (File ''!.env.local'')"
    using setupEnvironmentVariables_unfold [OF c, of demoConfig] y2
    by (simp add: updateGitignore_def withFiles_def existsSync_def ret_def project_def
        gitignore_def envLocal_def readFile_def andThen_def)
  show ?thesis using p1 p2 p3 l1 l2 by simp
qed


section \<open>Project inspection\<close>

text \<open>
  C4, as amended. Reading the manifest never throws: an unreadable or malformed
  \<open>package.json\<close> gives \<open>null\<close>. Project inspection then throws
  \<open>Could not find package.json\<close>, and it throws in no other case: with a manifest it
  returns a fingerprint and changes nothing, a missing \<open>next\<close> entry gives the version
  \<open>unknown\<close>, and the other fields are the results of the existence probes.
\<close>

theorem inspection_throws_without_manifest:
  "(getPackageJson X (files s) = None \<longrightarrow>
      detectProjectStructure X s = (Throws (JsError ''Could not find package.json''), s)) \<and>
   (getPackageJson X (files s) = Some pj \<longrightarrow>
      (\<exists>info. detectProjectStructure X s = (Returns info, s) \<and>
         hasTypescript info = existsSync (files s) [''tsconfig.json''] \<and>
         hasAppRouter info =
           (hasDirectoryPathFromRoot (files s) [''app''] \<or>
            hasDirectoryPathFromRoot (files s) [''src'', ''app'']) \<and>
         hasPagesRouter info =
           (hasDirectoryPathFromRoot (files s) [''pages''] \<or>
            hasDirectoryPathFromRoot (files s) [''src'', ''pages'']) \<and>
         packageManager info = detectPackageManager (files s) \<and>
         (\<not> truthy (getProp (dependencies pj) ''next'') \<and>
          \<not> truthy (getProp (devDependencies pj) ''next'') \<longrightarrow> nextVersion info = ''unknown'')))"
  by (auto simp: detectProjectStructure_def withFiles_def throwError_def ret_def
      checkHasTypescript_def orDefault_def truthy_def split: option.splits)

theorem inspection_throws_without_manifest_witness:
  "detectProjectStructure demoCollaborators (project [([''package.json''], Dir)]) =
     (Throws (JsError ''Could not find package.json''), project [([''package.json''], Dir)]) \<and>
   (\<exists>info. detectProjectStructure demoCollaborators
             (project [([''package.json''], File ''demo''), ([''tsconfig.json''], File ''{}'')]) =
           (Returns info,
            project [([''package.json''], File ''demo''), ([''tsconfig.json''], File ''{}'')]) \<and>
          hasTypescript info \<and> \<not> hasAppRouter info \<and> packageManager info = Npm)"
  using inspection_throws_without_manifest
          [where X = demoCollaborators and s = "project [([''package.json''], Dir)]"]
        inspection_throws_without_manifest
          [where X = demoCollaborators and pj = demoManifest
             and s = "project [([''package.json''], File ''demo''),
                               ([''tsconfig.json''], File ''{}'')]"]
  by (auto simp: getPackageJson_def project_def demoCollaborators_def existsSync_def
      hasDirectoryPathFromRoot_def detectPackageManager_def)

text \<open>
  C4, as stated, fails: with no \<open>package.json\<close>, and with one that the JSON reader
  rejects, project inspection throws instead of returning a fingerprint.
\<close>

theorem inspection_throws_counterexample:
  "detectProjectStructure demoCollaborators (project []) =
     (Throws (JsError ''Could not find package.json''), project []) \<and>
   detectProjectStructure demoCollaborators (project [([''package.json''], File ''{ name: '')]) =
     (Throws (JsError ''Could not find package.json''),
      project [([''package.json''], File ''{ name: '')])"
  by (simp add: detectProjectStructure_def withFiles_def throwError_def getPackageJson_def
      project_def demoCollaborators_def)


section \<open>A failed installation ends the run\<close>

lemma installPackage_fails:
  assumes "execCommand X (installCommandFor pm name) (files s) = (False, fs')"
  shows "installPackage X name pm False s =
    (Throws (CommandFailed (installCommandFor pm name)),
     \<lparr> files = fs',
       console = console s @
         [Info (''Installing '' @ name @ ''...''),
          Failure (''Failed to install '' @ name @ ''. Please install it manually.'')] \<rparr>)"
  using assms
  by (simp add: installPackage_def andThen_def clackLog_def tryCatch_def execSync_def
      throwError_def)

lemma reportDetected_files:
  "fst (reportDetected info s) = Returns () \<and> files (snd (reportDetected info s)) = files s"
  by (simp add: reportDetected_def ret_def clackLog_def andThen_def)

lemma resolveConfig_files:
  "files (snd (resolveConfig X options info t)) = files t \<and>
   fst (resolveConfig X options info t) = fst (resolveConfig X options info s)"
  by (simp add: resolveConfig_def ret_def)

text \<open>
  C3, as amended. If the subprocess that installs \<open>rollbar\<close> exits with a code other than
  zero, the failure is reported (\<open>Failed to install ... Please install it manually.\<close>,
  \<open>Setup failed\<close>, the message of the error) and the run ends with exit code 1: the second
  package is not installed and no configuration step runs, so the files are as the
  subprocess left them. The messages are printed after what the inspection report and
  the interview have printed.
\<close>

theorem failed_install_aborts_run:
  assumes detect: "detectProjectStructure X s = (Returns info, s)"
    and cfg: "fst (resolveConfig X options info s) = Returns cfg"
    and tokens: "isVercel cfg \<or> (serverAccessToken cfg \<noteq> [] \<and> clientAccessToken cfg \<noteq> [])"
    and install: "\<not> skipInstall options"
    and fails: "execCommand X (installCommandFor (packageManager info) ''rollbar@^3.0.0-rc.1'')
                  (files s) = (False, fs')"
  shows "runNextjsWizard X options s =
    (Exits 1,
     \<lparr> files = fs',
       console =
         console (snd (resolveConfig X options info (snd (reportDetected info s)))) @
         [Info ''Installing rollbar@^3.0.0-rc.1...'',
          Failure ''Failed to install rollbar@^3.0.0-rc.1. Please install it manually.'',
          Failure ''Setup failed'',
          FailureMessage
            (CommandFailed (installCommandFor (packageManager info) ''rollbar@^3.0.0-rc.1'')),
          Cancel ''Operation cancelled.''] \<rparr>)"
proof -
  obtain s1 where s1: "reportDetected info s = (Returns (), s1)" and f1: "files s1 = files s"
    using reportDetected_files [of info s] by (cases "reportDetected info s") auto
  obtain s2 where s2: "resolveConfig X options info s1 = (Returns cfg, s2)"
    and f2: "files s2 = files s"
    using resolveConfig_files [of X options info s1 s] cfg f1
    by (cases "resolveConfig X options info s1") auto
  have req: "requireTokens cfg s2 = (Returns (), s2)"
    using tokens by (auto simp: requireTokens_def ret_def)
  have fails2: "execCommand X (installCommandFor (packageManager info) ''rollbar@^3.0.0-rc.1'')
                  (files s2) = (False, fs')"
    using fails f2 by simp
  have inst: "installPackages X options info s2 =
    (Throws (CommandFailed (installCommandFor (packageManager info) ''rollbar@^3.0.0-rc.1'')),
     \<lparr> files = fs',
       console = console s2 @
         [Info ''Installing rollbar@^3.0.0-rc.1...'',
          Failure ''Failed to install rollbar@^3.0.0-rc.1. Please install it manually.''] \<rparr>)"
    using install installPackage_fails [OF fails2]
    by (simp add: installPackages_def andThen_def)
  show ?thesis
    unfolding runNextjsWizard_def
    by (simp add: tryCatch_def andThen_def detect s1 s2 req inst clackLog_def abort_def)
qed

theorem failed_install_aborts_run_witness:
  "runNextjsWizard demoCollaborators demoOptions (project [([''package.json''], File ''demo'')]) =
    (Exits 1,
     \<lparr> files = [[''package.json''] \<mapsto> File ''demo''],
       console =
         [Info ''Detected Next.js 14.2.0 with npm'',
          Info ''Installing rollbar@^3.0.0-rc.1...'',
          Failure ''Failed to install rollbar@^3.0.0-rc.1. Please install it manually.'',
          Failure ''Setup failed'',
          FailureMessage (CommandFailed ''npm install rollbar@^3.0.0-rc.1''),
          Cancel ''Operation cancelled.''] \<rparr>)"
proof -
  let ?s = "project [([''package.json''], File ''demo'')]"
  let ?info = "\<lparr> hasTypescript = False, hasAppRouter = False, hasPagesRouter = False,
                 packageManager = Npm, nextVersion = ''14.2.0'' \<rparr>"
  let ?cfg = "nonInteractiveConfig demoCollaborators demoOptions ?info"
  have detect: "detectProjectStructure demoCollaborators ?s = (Returns ?info, ?s)"
    by (simp add: detectProjectStructure_def withFiles_def ret_def getPackageJson_def
        project_def demoCollaborators_def demoManifest_def checkHasTypescript_def
        existsSync_def hasDirectoryPathFromRoot_def detectPackageManager_def getProp_def
        truthy_def orDefault_def)
  have cfg: "fst (resolveConfig demoCollaborators demoOptions ?info ?s) = Returns ?cfg"
    by (simp add: resolveConfig_def demoOptions_def ret_def)
  have tokens: "isVercel ?cfg \<or> (serverAccessToken ?cfg \<noteq> [] \<and> clientAccessToken ?cfg \<noteq> [])"
    by (simp add: nonInteractiveConfig_def demoOptions_def demoCollaborators_def orDefault_def
        Let_def)
  have install: "\<not> skipInstall demoOptions" by (simp add: demoOptions_def)
  have fails: "execCommand demoCollaborators
                 (installCommandFor (packageManager ?info) ''rollbar@^3.0.0-rc.1'') (files ?s)
               = (False, files ?s)"
    by (simp add: demoCollaborators_def)
  show ?thesis
    using failed_install_aborts_run [OF detect cfg tokens install fails]
    by (simp add: project_def installCommandFor_def reportDetected_def resolveConfig_def
        demoOptions_def ret_def packageManagerName_def clackLog_def)
qed

text \<open>
  C3, as stated, fails: with a subprocess that exits with a code other than zero the run
  ends with exit code 1 after the first installation; neither the three configuration
  files nor the instrumentation hook nor the environment file has been created.
\<close>

theorem failed_install_counterexample:
  "fst (runNextjsWizard demoCollaborators demoOptions
          (project [([''package.json''], File ''demo'')])) = Exits 1 \<and>
   \<not> existsSync
       (files (snd (runNextjsWizard demoCollaborators demoOptions
                     (project [([''package.json''], File ''demo'')]))))
       [''rollbar.server.config.js''] \<and>
   \<not> existsSync
       (files (snd (runNextjsWizard demoCollaborators demoOptions
                     (project [([''package.json''], File ''demo'')]))))
       [''rollbar.edge.config.js''] \<and>
   \<not> existsSync
       (files (snd (runNextjsWizard demoCollaborators demoOptions
                     (project [([''package.json''], File ''demo'')]))))
       [''rollbar.client.config.js''] \<and>
   \<not> existsSync
       (files (snd (runNextjsWizard demoCollaborators demoOptions
                     (project [([''package.json''], File ''demo'')]))))
       [''instrumentation.js''] \<and>
   \<not> existsSync
       (files (snd (runNextjsWizard demoCollaborators demoOptions
                     (project [([''package.json''], File ''demo'')]))))
       [''.env.local'']"
proof -
  let ?s = "project [([''package.json''], File ''demo'')]"
  obtain info where info: "detectProjectStructure demoCollaborators ?s = (Returns info, ?s)"
    by (simp add: detectProjectStructure_def withFiles_def ret_def getPackageJson_def
        project_def demoCollaborators_def)
  obtain s1 where s1: "reportDetected info ?s = (Returns (), s1)" and f1: "files s1 = files ?s"
    using reportDetected_files [of info ?s] by (cases "reportDetected info ?s") auto
  let ?cfg = "nonInteractiveConfig demoCollaborators demoOptions info"
  have rc: "resolveConfig demoCollaborators demoOptions info s1 = (Returns ?cfg, s1)"
    by (simp add: resolveConfig_def demoOptions_def ret_def)
  have req: "requireTokens ?cfg s1 = (Returns (), s1)"
    by (simp add: requireTokens_def ret_def nonInteractiveConfig_def demoOptions_def
        demoCollaborators_def orDefault_def Let_def)
  have "execCommand demoCollaborators
          (installCommandFor (packageManager info) ''rollbar@^3.0.0-rc.1'') (files s1)
        = (False, files ?s)"
    using f1 by (simp add: demoCollaborators_def)
  from installPackage_fails [OF this]
  have inst: "installPackages demoCollaborators demoOptions info s1 =
     (Throws (CommandFailed (installCommandFor (packageManager info) ''rollbar@^3.0.0-rc.1'')),
      \<lparr> files = files ?s,
        console = console s1 @
          [Info ''Installing rollbar@^3.0.0-rc.1...'',
           Failure ''Failed to install rollbar@^3.0.0-rc.1. Please install it manually.''] \<rparr>)"
    by (simp add: installPackages_def andThen_def demoOptions_def)
  have "fst (runNextjsWizard demoCollaborators demoOptions ?s) = Exits 1 \<and>
        files (snd (runNextjsWizard demoCollaborators demoOptions ?s)) = files ?s"
    unfolding runNextjsWizard_def
    by (simp add: tryCatch_def andThen_def info s1 rc req inst clackLog_def abort_def)
  then show ?thesis
    by (simp add: project_def existsSync_def)
qed


section \<open>The postbuild script\<close>

lemma postbuildOf_setPostbuild: "postbuildOf (setPostbuild v pj) = Some v"
  by (simp add: postbuildOf_def setPostbuild_def getProp_def update_conv')

lemma other_scripts_setPostbuild:
  "k \<noteq> ''postbuild'' \<Longrightarrow> getProp (scripts (setPostbuild v pj)) k = getProp (scripts pj) k"
  by (cases "scripts pj") (simp_all add: setPostbuild_def getProp_def update_conv')

lemma writePackageJson_ok:
  assumes "getPackageJson X (files s) = Some pj"
  shows "writePackageJson X pj' s =
    (Returns (), s\<lparr>files := (files s)([''package.json''] \<mapsto> File (stringifyJson X pj' @ nl))\<rparr>)"
proof -
  have "files s [''package.json''] \<noteq> Some Dir"
    using assms by (auto simp: getPackageJson_def split: option.splits node.splits)
  then show ?thesis
    by (simp add: writePackageJson_def writeFile_def parentIsDirectory_def)
qed

lemma setupSourceMapUploadScript_blocks:
  "setupSourceMapUploadScript X cfg info =
     andThen (writeUploadScript X cfg info) (\<lambda>_.
       withFiles (\<lambda>fs.
         manifestBlocks X info
           (filter (isMissing (getPackageJson X fs)) (requiredPackages info))))"
  unfolding setupSourceMapUploadScript_def writeUploadScript_def ensureDevDependencies_def
    manifestBlocks_def requiredPackages_def scriptFile_def Let_def
  by (rule refl)

lemma writeUploadScript_returns:
  assumes "files s [''scripts''] = None \<or> files s [''scripts''] = Some Dir"
    and "files s (scriptFile info) \<noteq> Some Dir"
  shows "fst (writeUploadScript X cfg info s) = Returns ()"
  using assms
  by (auto simp: writeUploadScript_def withFiles_def existsSync_def mkdirSync_def isFile_def
      andThen_def ret_def writeFile_def parentIsDirectory_def scriptFile_def clackLog_def)

lemma writeUploadScript_effect:
  assumes "writeUploadScript X cfg info s = (Returns (), s')"
  shows "files s' =
     ((files s)([''scripts''] \<mapsto> Dir))
       (scriptFile info \<mapsto>
          File (getSourceMapUploadScriptTemplate X (hasTypescript info) (isVercel cfg)
                  (vercelServerTokenEnvVar cfg)))"
proof (cases "files s [''scripts'']")
  case None
  then show ?thesis
    using assms
    by (auto simp: writeUploadScript_def withFiles_def existsSync_def mkdirSync_def isFile_def
      andThen_def ret_def writeFile_def parentIsDirectory_def scriptFile_def clackLog_def
      split: if_splits)
next
  case (Some n)
  then show ?thesis
    using assms
    by (cases n)
       (auto simp: writeUploadScript_def withFiles_def existsSync_def isFile_def
          andThen_def ret_def writeFile_def parentIsDirectory_def scriptFile_def clackLog_def
          fun_upd_idem split: if_splits)
qed

lemma installMissingPackages_returns: "alwaysReturns (installMissingPackages X missing)"
  unfolding installMissingPackages_def Let_def
  by (auto intro!: alwaysReturns_intros alwaysReturns_tryCatch neverExits_intros
      split: option.splits)

lemma installMissingPackages_preserves:
  assumes "\<And>command fs. Q fs \<Longrightarrow> Q (snd (execCommand X command fs))"
  shows "preserves Q (installMissingPackages X missing)"
  unfolding installMissingPackages_def Let_def
  by (auto intro!: preserves_intros preserves_execSync assms split: option.splits)

lemma getPackageJson_written:
  assumes "jsonRoundTrip X"
  shows "getPackageJson X (fs([''package.json''] \<mapsto> File (stringifyJson X pj @ nl))) = Some pj"
  using assms by (simp add: getPackageJson_def jsonRoundTrip_def)

lemma getPackageJson_same:
  "fs' [''package.json''] = fs [''package.json''] \<Longrightarrow> getPackageJson X fs' = getPackageJson X fs"
  by (simp add: getPackageJson_def)

lemma ensureDevDependencies_effect:
  assumes json: "jsonRoundTrip X" and m: "getPackageJson X (files s) = Some u"
  shows "\<exists>s'. ensureDevDependencies X missing s = (Returns (), s') \<and>
           getPackageJson X (files s') =
             Some (if missing \<noteq> [] then addMissingDevDependencies missing u else u) \<and>
           (\<forall>p. p \<noteq> [''package.json''] \<longrightarrow> files s' p = files s p)"
  using m writePackageJson_ok [OF m] getPackageJson_written [OF json]
  by (simp add: ensureDevDependencies_def withFiles_def andThen_def clackLog_def ret_def)

lemma addPostbuildScript_effect:
  assumes json: "jsonRoundTrip X" and m: "getPackageJson X (files s) = Some f"
  shows "\<exists>s'. addPostbuildScript X info s = (Returns (), s') \<and>
           getPackageJson X (files s') = Some (withUploadCommand info f) \<and>
           (\<forall>p. p \<noteq> [''package.json''] \<longrightarrow> files s' p = files s p)"
  using m writePackageJson_ok [OF m] getPackageJson_written [OF json]
  by (simp add: addPostbuildScript_def withUploadCommand_def withFiles_def andThen_def
      clackLog_def)

lemma excludeScriptsFromTypeChecking_returns:
  "alwaysReturns (excludeScriptsFromTypeChecking X info)"
  unfolding excludeScriptsFromTypeChecking_def Let_def
  by (auto intro!: alwaysReturns_intros alwaysReturns_tryCatch neverExits_intros
      split: option.splits)

lemma excludeScriptsFromTypeChecking_preserves:
  assumes "\<And>fs c. Q fs \<Longrightarrow> Q (fs([''tsconfig.json''] \<mapsto> File c))"
  shows "preserves Q (excludeScriptsFromTypeChecking X info)"
  unfolding excludeScriptsFromTypeChecking_def Let_def
  by (auto intro!: preserves_intros preserves_readFile preserves_writeFile assms
      split: option.splits)

lemma withUploadCommand_scripts:
  assumes "scripts a = scripts b"
  shows "scripts (withUploadCommand info a) = scripts (withUploadCommand info b)"
  using assms by (simp add: withUploadCommand_def postbuildOf_def setPostbuild_def)

lemma addMissingDevDependencies_scripts:
  "scripts (addMissingDevDependencies missing u) = scripts u"
  by (simp add: addMissingDevDependencies_def)

lemma setupSourceMapUploadScript_manifest:
  assumes m: "getPackageJson X (files s) = Some pj"
    and json: "jsonRoundTrip X"
    and sub: "subprocessKeepsScripts X"
    and dir: "files s [''scripts''] = None \<or> files s [''scripts''] = Some Dir"
    and script: "files s (scriptFile info) \<noteq> Some Dir"
  shows "fst (setupSourceMapUploadScript X cfg info s) = Returns () \<and>
         (\<exists>pj'. getPackageJson X (files (snd (setupSourceMapUploadScript X cfg info s))) = Some pj' \<and>
                scripts pj' = scripts (withUploadCommand info pj))"
proof -
  let ?missing = "filter (isMissing (Some pj)) (requiredPackages info)"
  obtain sa where sa: "writeUploadScript X cfg info s = (Returns (), sa)"
    using writeUploadScript_returns [OF dir script, of X cfg]
    by (cases "writeUploadScript X cfg info s") auto
  have "files sa [''package.json''] = files s [''package.json'']"
    using writeUploadScript_effect [OF sa] by (simp add: scriptFile_def)
  then have ma: "getPackageJson X (files sa) = Some pj"
    using m getPackageJson_same by metis
  then have ka: "keepsScripts X pj (files sa)" by (simp add: keepsScripts_def)
  have "alwaysReturns (if ?missing \<noteq> [] then installMissingPackages X ?missing else ret ())"
    by (simp add: installMissingPackages_returns alwaysReturns_ret)
  from alwaysReturnsD [OF this]
  obtain sb where sb: "(if ?missing \<noteq> [] then installMissingPackages X ?missing else ret ()) sa
      = (Returns (), sb)"
    by blast
  have "preserves (keepsScripts X pj)
          (if ?missing \<noteq> [] then installMissingPackages X ?missing else ret ())"
    using sub
    by (auto intro!: installMissingPackages_preserves preserves_ret
        simp: subprocessKeepsScripts_def)
  from preservesD [OF this ka sb] obtain u where mb: "getPackageJson X (files sb) = Some u"
    and su: "scripts u = scripts pj"
    by (auto simp: keepsScripts_def split: option.splits)
  let ?u' = "if ?missing \<noteq> [] then addMissingDevDependencies ?missing u else u"
  from ensureDevDependencies_effect [OF json mb, of ?missing]
  obtain sc where sc: "ensureDevDependencies X ?missing sb = (Returns (), sc)"
    and mc: "getPackageJson X (files sc) = Some ?u'"
    by auto
  have su': "scripts ?u' = scripts pj"
    using su by (simp add: addMissingDevDependencies_scripts)
  from addPostbuildScript_effect [OF json mc, of info]
  obtain sd where sd: "addPostbuildScript X info sc = (Returns (), sd)"
    and md: "getPackageJson X (files sd) = Some (withUploadCommand info ?u')"
    by auto
  obtain se where se: "excludeScriptsFromTypeChecking X info sd = (Returns (), se)"
    using alwaysReturnsD [OF excludeScriptsFromTypeChecking_returns] by blast
  have "preserves (\<lambda>fs. fs [''package.json''] = files sd [''package.json''])
          (excludeScriptsFromTypeChecking X info)"
    by (rule excludeScriptsFromTypeChecking_preserves) simp
  from preservesD [OF this _ se] have "files se [''package.json''] = files sd [''package.json'']"
    by simp
  then have me: "getPackageJson X (files se) = Some (withUploadCommand info ?u')"
    using md getPackageJson_same by metis
  have "manifestBlocks X info ?missing sa = (Returns (), se)"
    unfolding manifestBlocks_def
    by (simp add: andThen_def sb sc sd se del: filter.simps)
  then have run: "setupSourceMapUploadScript X cfg info s = (Returns (), se)"
    unfolding setupSourceMapUploadScript_blocks
    by (simp add: andThen_def withFiles_def sa ma)
  have "scripts (withUploadCommand info ?u') = scripts (withUploadCommand info pj)"
    using su' by (rule withUploadCommand_scripts)
  then show ?thesis using run me by simp
qed

text \<open>
  C6, as amended. Let the manifest be readable and have a \<open>postbuild\<close> script that is not
  the empty string; let the JSON printer and reader round-trip, let a subprocess leave
  the manifest readable with its scripts, and let nothing stand in the way of the upload
  script (\<open>scripts\<close> is a directory or does not exist, and the script path is not a
  directory). Then the source-map script setup returns, and in the manifest it leaves:
  if the earlier \<open>postbuild\<close> script does not contain \<open>upload-sourcemaps\<close>, the script is
  the earlier script, then \<open>&&\<close> between two spaces, then the upload command; if it
  contains \<open>upload-sourcemaps\<close>, the script is unchanged, as are all scripts. Every other
  script is kept in both cases.
\<close>

theorem postbuild_script_appended:
  assumes manifest: "getPackageJson X (files s) = Some pj"
    and entry: "postbuildOf pj = Some prior"
    and nonempty: "prior \<noteq> []"
    and json: "jsonRoundTrip X"
    and sub: "subprocessKeepsScripts X"
    and dir: "files s [''scripts''] = None \<or> files s [''scripts''] = Some Dir"
    and script: "files s (scriptFile info) \<noteq> Some Dir"
  shows "fst (setupSourceMapUploadScript X cfg info s) = Returns () \<and>
    (\<exists>pj'. getPackageJson X (files (snd (setupSourceMapUploadScript X cfg info s))) = Some pj' \<and>
       (\<not> includesStr prior ''upload-sourcemaps'' \<longrightarrow>
          postbuildOf pj' = Some (prior @ '' && '' @ uploadCommand info)) \<and>
       (includesStr prior ''upload-sourcemaps'' \<longrightarrow>
          postbuildOf pj' = Some prior \<and> scripts pj' = scripts pj) \<and>
       (\<forall>k. k \<noteq> ''postbuild'' \<longrightarrow> getProp (scripts pj') k = getProp (scripts pj) k))"
proof -
  from setupSourceMapUploadScript_manifest [OF manifest json sub dir script, of cfg]
  obtain pj' where r: "fst (setupSourceMapUploadScript X cfg info s) = Returns ()"
    and m: "getPackageJson X (files (snd (setupSourceMapUploadScript X cfg info s))) = Some pj'"
    and sc: "scripts pj' = scripts (withUploadCommand info pj)"
    by blast
  have t: "truthy (postbuildOf pj)" using entry nonempty by (simp add: truthy_def)
  have o: "orDefault (postbuildOf pj) [] = prior"
    using entry nonempty by (simp add: orDefault_def)
  have a: "postbuildOf pj' = Some (prior @ '' && '' @ uploadCommand info)"
    if "\<not> includesStr prior ''upload-sourcemaps''"
  proof -
    have "withUploadCommand info pj = setPostbuild (prior @ '' && '' @ uploadCommand info) pj"
      using that t o by (simp add: withUploadCommand_def)
    then have "postbuildOf (withUploadCommand info pj) =
        Some (prior @ '' && '' @ uploadCommand info)"
      by (simp add: postbuildOf_setPostbuild)
    then show ?thesis using sc by (simp add: postbuildOf_def)
  qed
  have b: "postbuildOf pj' = Some prior \<and> scripts pj' = scripts pj"
    if "includesStr prior ''upload-sourcemaps''"
  proof -
    have "withUploadCommand info pj = pj"
      using that t o by (simp add: withUploadCommand_def)
    then show ?thesis using sc entry by (simp add: postbuildOf_def)
  qed
  have c: "getProp (scripts pj') k = getProp (scripts pj) k" if "k \<noteq> ''postbuild''" for k
    using that sc by (simp add: withUploadCommand_def other_scripts_setPostbuild)
  show ?thesis using r m a b c by blast
qed

theorem postbuild_script_appended_witness:
  "fst (setupSourceMapUploadScript codecCollaborators demoConfig demoInfo
          (project [([''package.json''], manifestText demoManifest)])) = Returns () \<and>
   (\<exists>pj'. getPackageJson codecCollaborators
            (files (snd (setupSourceMapUploadScript codecCollaborators demoConfig demoInfo
               (project [([''package.json''], manifestText demoManifest)])))) = Some pj' \<and>
          postbuildOf pj' = Some ''next-sitemap && tsx scripts/upload-sourcemaps.ts'' \<and>
          getProp (scripts pj') ''build'' = Some ''next build'') \<and>
   fst (setupSourceMapUploadScript codecCollaborators demoConfig demoInfo
          (project [([''package.json''], manifestText uploadingManifest)])) = Returns () \<and>
   (\<exists>pj'. getPackageJson codecCollaborators
            (files (snd (setupSourceMapUploadScript codecCollaborators demoConfig demoInfo
               (project [([''package.json''], manifestText uploadingManifest)])))) = Some pj' \<and>
          postbuildOf pj' = Some ''node scripts/upload-sourcemaps.js'' \<and>
          scripts pj' = scripts uploadingManifest)"
proof -
  let ?s1 = "project [([''package.json''], manifestText demoManifest)]"
  let ?s2 = "project [([''package.json''], manifestText uploadingManifest)]"
  have m1: "getPackageJson codecCollaborators (files ?s1) = Some demoManifest"
    by (rule codec_getPackageJson) (simp add: project_def)
  have m2: "getPackageJson codecCollaborators (files ?s2) = Some uploadingManifest"
    by (rule codec_getPackageJson) (simp add: project_def)
  have p1: "postbuildOf demoManifest = Some ''next-sitemap''"
    by (simp add: postbuildOf_def demoManifest_def getProp_def)
  have p2: "postbuildOf uploadingManifest = Some ''node scripts/upload-sourcemaps.js''"
    by (simp add: postbuildOf_def uploadingManifest_def getProp_def)
  have n1: "\<not> includesStr ''next-sitemap'' ''upload-sourcemaps''" by code_simp
  have i2: "includesStr ''node scripts/upload-sourcemaps.js'' ''upload-sourcemaps''" by code_simp
  have b: "getProp (scripts demoManifest) ''build'' = Some ''next build''"
    by (simp add: demoManifest_def getProp_def)
  have d1: "files ?s1 [''scripts''] = None \<or> files ?s1 [''scripts''] = Some Dir"
    and f1: "files ?s1 (scriptFile demoInfo) \<noteq> Some Dir"
    and d2: "files ?s2 [''scripts''] = None \<or> files ?s2 [''scripts''] = Some Dir"
    and f2: "files ?s2 (scriptFile demoInfo) \<noteq> Some Dir"
    by (simp_all add: project_def scriptFile_def)
  have u: "uploadCommand demoInfo = ''tsx scripts/upload-sourcemaps.ts''"
    by (simp add: uploadCommand_def demoInfo_def extOf_def)
  show ?thesis
    using postbuild_script_appended
            [OF m1 p1 _ codec_jsonRoundTrip codec_subprocessKeepsScripts d1 f1, of demoConfig]
          postbuild_script_appended
            [OF m2 p2 _ codec_jsonRoundTrip codec_subprocessKeepsScripts d2 f2, of demoConfig]
          n1 i2 b u
    by auto
qed

text \<open>
  C6, as stated, fails for a \<open>postbuild\<close> entry that is the empty string: the entry does
  not reference the upload script, and the source-map script setup replaces it by the
  upload command alone, with no \<open>&&\<close> in front.
\<close>

theorem empty_postbuild_counterexample:
  "postbuildOf emptyPostbuildManifest = Some [] \<and>
   \<not> includesStr [] ''upload-sourcemaps'' \<and>
   fst (setupSourceMapUploadScript codecCollaborators demoConfig demoInfo
          (project [([''package.json''], manifestText emptyPostbuildManifest)])) = Returns () \<and>
   map_option postbuildOf
     (getPackageJson codecCollaborators
        (files (snd (setupSourceMapUploadScript codecCollaborators demoConfig demoInfo
           (project [([''package.json''], manifestText emptyPostbuildManifest)]))))) =
     Some (Some ''tsx scripts/upload-sourcemaps.ts'') \<and>
   ''tsx scripts/upload-sourcemaps.ts'' \<noteq> [] @ '' && '' @ ''tsx scripts/upload-sourcemaps.ts''"
proof -
  let ?s = "project [([''package.json''], manifestText emptyPostbuildManifest)]"
  have m: "getPackageJson codecCollaborators (files ?s) = Some emptyPostbuildManifest"
    by (rule codec_getPackageJson) (simp add: project_def)
  have d: "files ?s [''scripts''] = None \<or> files ?s [''scripts''] = Some Dir"
    and f: "files ?s (scriptFile demoInfo) \<noteq> Some Dir"
    by (simp_all add: project_def scriptFile_def)
  have p: "postbuildOf emptyPostbuildManifest = Some []"
    by (simp add: postbuildOf_def emptyPostbuildManifest_def getProp_def)
  have n: "\<not> includesStr [] ''upload-sourcemaps''" by code_simp
  have w: "postbuildOf (withUploadCommand demoInfo emptyPostbuildManifest) =
      Some ''tsx scripts/upload-sourcemaps.ts''"
    using p
    by (simp add: withUploadCommand_def truthy_def postbuildOf_setPostbuild uploadCommand_def
        demoInfo_def extOf_def)
  from setupSourceMapUploadScript_manifest
         [OF m codec_jsonRoundTrip codec_subprocessKeepsScripts d f, of demoConfig]
  obtain pj' where
    r: "fst (setupSourceMapUploadScript codecCollaborators demoConfig demoInfo ?s) = Returns ()"
    and g: "getPackageJson codecCollaborators
        (files (snd (setupSourceMapUploadScript codecCollaborators demoConfig demoInfo ?s)))
          = Some pj'"
    and sc: "scripts pj' = scripts (withUploadCommand demoInfo emptyPostbuildManifest)"
    by blast
  have "postbuildOf pj' = Some ''tsx scripts/upload-sourcemaps.ts''"
    using w sc by (simp add: postbuildOf_def)
  then show ?thesis using p n r g by simp
qed


section \<open>The environment file\<close>

lemma tokenBlock_has_key: "includesStr (c @ tokenBlock cfg) serverTokenKey"
proof -
  have "tokenBlock cfg = (nl @ ''# Rollbar Configuration'' @ nl) @ serverTokenKey @
      (''='' @ serverAccessToken cfg @ nl @
       ''NEXT_PUBLIC_ROLLBAR_PROJECT_ACCESS_CLIENT_TOKEN='' @ clientAccessToken cfg @ nl)"
    by (simp add: tokenBlock_def)
  then show ?thesis
    by (metis includesStr_appendI1 includesStr_appendI2 includesStr_self)
qed

lemma vercelBlock_has_heading: "includesStr (c @ vercelBlock cfg) ''# Rollbar Configuration''"
proof -
  have "vercelBlock cfg = nl @ ''# Rollbar Configuration'' @
      ('' (Vercel)'' @ nl @
       ''# These environment variables are set by Vercel's Rollbar integration'' @ nl @
       ''# Client Token: '' @
       orDefault (vercelClientTokenEnvVar cfg) ''VERCEL_ROLLBAR_CLIENT_TOKEN'' @ nl @
       ''# Server Token: '' @
       orDefault (vercelServerTokenEnvVar cfg) ''VERCEL_ROLLBAR_SERVER_TOKEN'' @ nl)"
    by (simp add: vercelBlock_def)
  then show ?thesis
    by (metis includesStr_appendI1 includesStr_appendI2 includesStr_self)
qed

lemma withTokens_idem: "withTokens cfg (withTokens cfg c) = withTokens cfg c"
  by (simp add: withTokens_def tokenBlock_has_key vercelBlock_has_heading)

lemma withTokens_kept:
  "includesStr c serverTokenKey \<Longrightarrow> \<not> isVercel cfg \<Longrightarrow> withTokens cfg c = c"
  by (simp add: withTokens_def)

lemma codeVersionHint_has_key: "includesStr (c @ codeVersionHint) ''ROLLBAR_CODE_VERSION''"
proof -
  have "codeVersionHint = ''# Set '' @ ''ROLLBAR_CODE_VERSION'' @
      ('' to track deployments (e.g., git commit SHA, semver, build number)'' @ nl @
       ''# ROLLBAR_CODE_VERSION=your-version-here'' @ nl)"
    by (simp add: codeVersionHint_def)
  then show ?thesis
    by (metis includesStr_appendI1 includesStr_appendI2 includesStr_self)
qed

lemma codeVersionLine_has_key:
  "includesStr (c @ ''ROLLBAR_CODE_VERSION='' @ v @ nl) ''ROLLBAR_CODE_VERSION''"
proof -
  have "c @ ''ROLLBAR_CODE_VERSION='' @ v @ nl = c @ ''ROLLBAR_CODE_VERSION'' @ (''='' @ v @ nl)"
    by simp
  then show ?thesis
    by (metis includesStr_appendI1 includesStr_appendI2 includesStr_self)
qed


lemma withCodeVersion_cases:
  "withCodeVersion cfg c = c \<or>
   (\<not> includesStr c ''ROLLBAR_CODE_VERSION'' \<and> includesStr (withCodeVersion cfg c) ''ROLLBAR_CODE_VERSION'' \<and>
    prefix c (withCodeVersion cfg c))"
  using codeVersionHint_has_key [of c] codeVersionLine_has_key [of c]
  by (auto simp: withCodeVersion_def)

lemma withTokens_prefix: "prefix c (withTokens cfg c)"
  by (simp add: withTokens_def)




text \<open>
  C7 (the code does not do this). An environment file that holds the token key and does
  not end with a line feed, a configuration with deployment tracking and a code version:
  the step appends the code-version line with no line feed in front, so the last
  existing line, the token line, is altered.
\<close>

theorem token_line_altered:
  "includesStr ''ROLLBAR_PROJECT_ACCESS_SERVER_TOKEN=abc123'' ''ROLLBAR_PROJECT_ACCESS_SERVER_TOKEN'' \<and>
   setupEnvironmentVariables demoConfig
       (project [(envLocal, File ''ROLLBAR_PROJECT_ACCESS_SERVER_TOKEN=abc123'')]) =
     (Returns (),
      \<lparr> files = [envLocal \<mapsto>
          File (''ROLLBAR_PROJECT_ACCESS_SERVER_TOKEN=abc123ROLLBAR_CODE_VERSION=1.0.0'' @ nl)],
        console = [Success ''Updated .env.local with Rollbar configuration''] \<rparr>) \<and>
   splitLines ''ROLLBAR_PROJECT_ACCESS_SERVER_TOKEN=abc123'' =
     [''ROLLBAR_PROJECT_ACCESS_SERVER_TOKEN=abc123''] \<and>
   splitLines (''ROLLBAR_PROJECT_ACCESS_SERVER_TOKEN=abc123ROLLBAR_CODE_VERSION=1.0.0'' @ nl) =
     [''ROLLBAR_PROJECT_ACCESS_SERVER_TOKEN=abc123ROLLBAR_CODE_VERSION=1.0.0'', []]"
proof -
  let ?old = "''ROLLBAR_PROJECT_ACCESS_SERVER_TOKEN=abc123''"
  let ?s = "project [(envLocal, File ?old)]"
  have has: "includesStr ?old ''ROLLBAR_PROJECT_ACCESS_SERVER_TOKEN''" by code_simp
  have nov: "\<not> includesStr ?old ''ROLLBAR_CODE_VERSION''" by code_simp
  have l1: "splitLines ?old = [?old]" by code_simp
  have l2: "splitLines (''ROLLBAR_PROJECT_ACCESS_SERVER_TOKEN=abc123ROLLBAR_CODE_VERSION=1.0.0'' @ nl) =
     [''ROLLBAR_PROJECT_ACCESS_SERVER_TOKEN=abc123ROLLBAR_CODE_VERSION=1.0.0'', []]"
    by code_simp
  have content: "withCodeVersion demoConfig (withTokens demoConfig ?old) =
      ''ROLLBAR_PROJECT_ACCESS_SERVER_TOKEN=abc123ROLLBAR_CODE_VERSION=1.0.0'' @ nl"
    using has nov
    by (simp add: withTokens_def withCodeVersion_def demoConfig_def serverTokenKey_def
        truthy_def orDefault_def)
  have nd: "files ?s envLocal \<noteq> Some Dir" by (simp add: project_def)
  have "setupEnvironmentVariables demoConfig ?s =
     (Returns (),
      \<lparr> files = [envLocal \<mapsto>
          File (''ROLLBAR_PROJECT_ACCESS_SERVER_TOKEN=abc123ROLLBAR_CODE_VERSION=1.0.0'' @ nl)],
        console = [Success ''Updated .env.local with Rollbar configuration''] \<rparr>)"
    unfolding setupEnvironmentVariables_unfold [OF nd]
    by (simp add: project_def content updateGitignore_def withFiles_def existsSync_def
        gitignore_def envLocal_def ret_def)
  then show ?thesis using has l1 l2 by simp
qed


section \<open>A second run of the steps 2 to 6\<close>





lemma changesOnly_refl [simp]: "changesOnly ps fs fs"
  by (simp add: changesOnly_def)






subsection \<open>Step 2: the generated configuration files\<close>




subsection \<open>Step 3: the instrumentation hook\<close>












subsection \<open>Step 4: the error pages\<close>




















subsection \<open>Step 5: the environment file\<close>







subsection \<open>Step 6: the build configuration\<close>













subsection \<open>The five steps together\<close>















end
